theory Spec2Isabelle
  imports Main "HOL-Library.Word"
begin

section \<open>Strings and the language built-ins the bot relies on\<close>

text \<open>
  A JavaScript string is a sequence of UTF-16 code units and \<open>.length\<close> counts
  code units, so a string is modelled as a list of 16-bit words. Every limit of the bot
  that is phrased in "characters" is a limit on this length.
\<close>

type_synonym code_unit = "16 word"
type_synonym jsstring = "code_unit list"

text \<open>An ASCII literal of the source, written as an Isabelle string.\<close>

definition ascii :: "string \<Rightarrow> jsstring" where
  "ascii s = map of_char s"

text \<open>
  The code units removed by \<open>String.prototype.trim\<close> and skipped by \<open>parseInt\<close>:
  ECMAScript's WhiteSpace (TAB, VT, FF, ZWNBSP and the Unicode space separators) and
  LineTerminator (LF, CR, LS, PS).
\<close>

definition isWhiteSpace :: "code_unit \<Rightarrow> bool" where
  "isWhiteSpace c \<longleftrightarrow>
     c \<in> set [0x0009, 0x000A, 0x000B, 0x000C, 0x000D, 0x0020, 0x00A0, 0x1680,
              0x2000, 0x2001, 0x2002, 0x2003, 0x2004, 0x2005, 0x2006, 0x2007,
              0x2008, 0x2009, 0x200A, 0x2028, 0x2029, 0x202F, 0x205F, 0x3000, 0xFEFF]"

definition trimStart :: "jsstring \<Rightarrow> jsstring" where
  "trimStart s = dropWhile isWhiteSpace s"

definition trimEnd :: "jsstring \<Rightarrow> jsstring" where
  "trimEnd s = rev (dropWhile isWhiteSpace (rev s))"

definition trim :: "jsstring \<Rightarrow> jsstring" where
  "trim s = trimEnd (trimStart s)"

text \<open>\<open>s.startsWith(p)\<close>, \<open>s.substring(n)\<close> and \<open>s.includes(p)\<close>.\<close>

definition startsWith :: "jsstring \<Rightarrow> jsstring \<Rightarrow> bool" where
  "startsWith s p \<longleftrightarrow> take (length p) s = p"

definition substring_from :: "nat \<Rightarrow> jsstring \<Rightarrow> jsstring" where
  "substring_from n s = drop n s"

fun includes_str :: "jsstring \<Rightarrow> jsstring \<Rightarrow> bool" where
  "includes_str [] p = (p = [])"
| "includes_str (c # s) p = (startsWith (c # s) p \<or> includes_str s p)"

text \<open>
  \<open>s.split(',')\<close>: the pieces between the commas, in order; a string without a comma
  (the empty string too) is one piece. \<open>split_from cur s\<close> carries the piece being read.
\<close>

fun split_from :: "jsstring \<Rightarrow> jsstring \<Rightarrow> jsstring list" where
  "split_from cur [] = [cur]"
| "split_from cur (c # s) =
     (if c = 0x2C then cur # split_from [] s else split_from (cur @ [c]) s)"

definition split_comma :: "jsstring \<Rightarrow> jsstring list" where
  "split_comma s = split_from [] s"

text \<open>
  \<open>parseInt(s)\<close> without a radix: leading white space is skipped, then an optional
  sign, then an optional \<open>0x\<close>/\<open>0X\<close> that selects radix 16 (radix 10 otherwise), then
  the longest run of digits of that radix; what follows the digits is ignored. With no
  digit the result is NaN, modelled as \<open>None\<close>. The source only compares the result
  with 1 and with the catalogue's length and uses it as an index when it lies between
  them, and rounding to a double is monotone and exact below \<open>2^53\<close>, so the
  mathematical integer stands for the number.
\<close>

definition digit_value :: "code_unit \<Rightarrow> nat option" where
  "digit_value c =
     (if 0x30 \<le> c \<and> c \<le> 0x39 then Some (unat c - 0x30)
      else if 0x61 \<le> c \<and> c \<le> 0x66 then Some (unat c - 0x61 + 10)
      else if 0x41 \<le> c \<and> c \<le> 0x46 then Some (unat c - 0x41 + 10)
      else None)"

definition isDigit :: "nat \<Rightarrow> code_unit \<Rightarrow> bool" where
  "isDigit radix c = (case digit_value c of None \<Rightarrow> False | Some d \<Rightarrow> d < radix)"

definition digits_value :: "nat \<Rightarrow> jsstring \<Rightarrow> nat" where
  "digits_value radix z = foldl (\<lambda>acc c. acc * radix + the (digit_value c)) 0 z"

definition parse_digits :: "nat \<Rightarrow> jsstring \<Rightarrow> nat option" where
  "parse_digits radix s =
     (let z = takeWhile (isDigit radix) s
      in if z = [] then None else Some (digits_value radix z))"

definition parseInt :: "jsstring \<Rightarrow> int option" where
  "parseInt input =
     (let s0 = trimStart input;
          negative = (s0 \<noteq> [] \<and> hd s0 = 0x2D);
          s1 = (if s0 \<noteq> [] \<and> (hd s0 = 0x2B \<or> hd s0 = 0x2D) then tl s0 else s0);
          hex = (take 2 s1 = [0x30, 0x78] \<or> take 2 s1 = [0x30, 0x58]);
          s2 = (if hex then drop 2 s1 else s1);
          radix = (if hex then 16 else 10)
      in case parse_digits radix s2 of
           None \<Rightarrow> None
         | Some n \<Rightarrow> Some (if negative then - int n else int n))"

text \<open>
  \<open>toLowerCase\<close> and \<open>toUpperCase\<close> follow the Unicode case tables, which are not
  part of the program: the functions below take them as the parameters \<open>lower\<close> and
  \<open>upper\<close>. \<open>ascii_lower\<close> is the built-in on strings whose only cased letters are
  ASCII, and serves where a concrete input is evaluated.
\<close>

definition ascii_lower :: "jsstring \<Rightarrow> jsstring" where
  "ascii_lower s = map (\<lambda>c. if 0x41 \<le> c \<and> c \<le> 0x5A then c + 0x20 else c) s"

definition ascii_upper :: "jsstring \<Rightarrow> jsstring" where
  "ascii_upper s = map (\<lambda>c. if 0x61 \<le> c \<and> c \<le> 0x7A then c - 0x20 else c) s"

text \<open>The decimal rendering of a number inside a template literal.\<close>

function decimal :: "nat \<Rightarrow> jsstring" where
  "decimal n =
     (if n < 10 then [of_nat (0x30 + n)]
      else decimal (n div 10) @ [of_nat (0x30 + n mod 10)])"
  by pat_completeness auto
termination
  by (relation "measure id") auto

declare decimal.simps [simp del]

section \<open>Data model (types.ts)\<close>

datatype ConversationStep =
    IDLE | WAITING_TITLE | WAITING_CONTENT | WAITING_IMAGE | WAITING_TAGS | CONFIRMING

text \<open>\<open>PostData\<close>: every field but \<open>tags\<close> is optional.\<close>

record PostData =
  title :: "jsstring option"
  content :: "jsstring option"
  imageUrl :: "jsstring option"
  imagePath :: "jsstring option"
  tags :: "jsstring list"

text \<open>Dates are instants of a clock, counted in milliseconds.\<close>

record ConversationState =
  step :: ConversationStep
  data :: PostData
  createdAt :: nat
  updatedAt :: nat

text \<open>
  \<open>Partial<PostData>\<close>, the \<open>dataUpdates\<close> argument of a transition: the fields
  that are present replace those of the state.
\<close>

record DataUpdates =
  upd_title :: "jsstring option"
  upd_content :: "jsstring option"
  upd_imageUrl :: "jsstring option"
  upd_imagePath :: "jsstring option"
  upd_tags :: "jsstring list option"

definition no_updates :: DataUpdates where
  "no_updates = \<lparr>upd_title = None, upd_content = None, upd_imageUrl = None,
                  upd_imagePath = None, upd_tags = None\<rparr>"

text \<open>
  The error classes of types.ts. \<open>PlainError\<close> is the language's own \<open>Error\<close>,
  which the flow table throws on an invalid transition and which a collaborator may
  throw as well. An error carries its \<open>message\<close> and, for the bot's own classes, the
  \<open>userMessage\<close> meant for the chat.
\<close>

datatype error_class = PlainError | ValidationError | ProcessingError

datatype user_message =
    ImageFormatUnreadable
  | ImageFormatUnsupported jsstring
  | ImageTooLarge nat
  | ImageValidationFailed
  | ImageResizeFailed
  | ImageProcessingFailed

record js_error =
  err_class :: error_class
  message :: jsstring
  userMessage :: "user_message option"

definition plain_error :: "jsstring \<Rightarrow> js_error" where
  "plain_error m = \<lparr>err_class = PlainError, message = m, userMessage = None\<rparr>"

definition validation_error :: "jsstring \<Rightarrow> user_message \<Rightarrow> js_error" where
  "validation_error m u = \<lparr>err_class = ValidationError, message = m, userMessage = Some u\<rparr>"

definition processing_error :: "jsstring \<Rightarrow> user_message \<Rightarrow> js_error" where
  "processing_error m u = \<lparr>err_class = ProcessingError, message = m, userMessage = Some u\<rparr>"

text \<open>The name of a step inside an error message: the enum's string value.\<close>

fun step_name :: "ConversationStep \<Rightarrow> jsstring" where
  "step_name IDLE = ascii ''idle''"
| "step_name WAITING_TITLE = ascii ''waiting_title''"
| "step_name WAITING_CONTENT = ascii ''waiting_content''"
| "step_name WAITING_IMAGE = ascii ''waiting_image''"
| "step_name WAITING_TAGS = ascii ''waiting_tags''"
| "step_name CONFIRMING = ascii ''confirming''"

section \<open>Session state helpers (session/storage.ts)\<close>

definition createIdleState :: "nat \<Rightarrow> ConversationState" where
  "createIdleState now =
     \<lparr>step = IDLE,
      data = \<lparr>title = None, content = None, imageUrl = None, imagePath = None, tags = []\<rparr>,
      createdAt = now, updatedAt = now\<rparr>"

definition merge_data :: "PostData \<Rightarrow> DataUpdates \<Rightarrow> PostData" where
  "merge_data d u =
     \<lparr>title = (case upd_title u of None \<Rightarrow> title d | Some v \<Rightarrow> Some v),
      content = (case upd_content u of None \<Rightarrow> content d | Some v \<Rightarrow> Some v),
      imageUrl = (case upd_imageUrl u of None \<Rightarrow> imageUrl d | Some v \<Rightarrow> Some v),
      imagePath = (case upd_imagePath u of None \<Rightarrow> imagePath d | Some v \<Rightarrow> Some v),
      tags = (case upd_tags u of None \<Rightarrow> tags d | Some v \<Rightarrow> v)\<rparr>"

definition updateStateStep ::
    "nat \<Rightarrow> ConversationState \<Rightarrow> ConversationStep \<Rightarrow> DataUpdates \<Rightarrow> ConversationState" where
  "updateStateStep now currentState newStep dataUpdates =
     currentState\<lparr>step := newStep,
                  data := merge_data (data currentState) dataUpdates,
                  updatedAt := now\<rparr>"

section \<open>The transition table (conversation/flow.ts)\<close>

fun validTransitions :: "ConversationStep \<Rightarrow> ConversationStep list" where
  "validTransitions IDLE = [WAITING_TITLE]"
| "validTransitions WAITING_TITLE = [WAITING_CONTENT, IDLE]"
| "validTransitions WAITING_CONTENT = [WAITING_IMAGE, IDLE]"
| "validTransitions WAITING_IMAGE = [WAITING_TAGS, IDLE]"
| "validTransitions WAITING_TAGS = [CONFIRMING, IDLE]"
| "validTransitions CONFIRMING = [IDLE]"

definition isValidTransition :: "ConversationStep \<Rightarrow> ConversationStep \<Rightarrow> bool" where
  "isValidTransition from to \<longleftrightarrow> to \<in> set (validTransitions from)"

fun getNextStep :: "ConversationStep \<Rightarrow> ConversationStep option" where
  "getNextStep IDLE = Some WAITING_TITLE"
| "getNextStep WAITING_TITLE = Some WAITING_CONTENT"
| "getNextStep WAITING_CONTENT = Some WAITING_IMAGE"
| "getNextStep WAITING_IMAGE = Some WAITING_TAGS"
| "getNextStep WAITING_TAGS = Some CONFIRMING"
| "getNextStep CONFIRMING = Some IDLE"

definition invalid_transition :: "ConversationStep \<Rightarrow> ConversationStep \<Rightarrow> js_error" where
  "invalid_transition from to =
     plain_error (ascii ''Invalid transition from '' @ step_name from @ ascii '' to '' @ step_name to)"

definition transitionToNext ::
    "nat \<Rightarrow> ConversationState \<Rightarrow> DataUpdates \<Rightarrow> js_error + ConversationState" where
  "transitionToNext now currentState dataUpdates =
     (case getNextStep (step currentState) of
        None \<Rightarrow>
          Inl (plain_error (ascii ''No next step available from '' @ step_name (step currentState)))
      | Some nextStep \<Rightarrow>
          if \<not> isValidTransition (step currentState) nextStep
          then Inl (invalid_transition (step currentState) nextStep)
          else Inr (updateStateStep now currentState nextStep dataUpdates))"

definition transitionTo ::
    "nat \<Rightarrow> ConversationState \<Rightarrow> ConversationStep \<Rightarrow> DataUpdates \<Rightarrow> js_error + ConversationState" where
  "transitionTo now currentState targetStep dataUpdates =
     (if \<not> isValidTransition (step currentState) targetStep
      then Inl (invalid_transition (step currentState) targetStep)
      else Inr (updateStateStep now currentState targetStep dataUpdates))"

definition canCancel :: "ConversationStep \<Rightarrow> bool" where
  "canCancel s \<longleftrightarrow> s \<noteq> IDLE"

section \<open>The collaborators of one invocation\<close>

type_synonym buffer = "8 word list"

text \<open>
  What the image library reads from a buffer (\<open>sharp(buf).metadata()\<close>): each field
  may be missing.
\<close>

record sharp_metadata =
  md_format :: "jsstring option"
  md_width :: "nat option"
  md_height :: "nat option"

text \<open>
  The pipeline the source asks the image library to run:
  \<open>sharp(buf).resize(w, h, {fit, withoutEnlargement}).jpeg({quality}).toBuffer()\<close>.
\<close>

datatype fit_mode = FitCover | FitContain | FitFill | FitInside | FitOutside

record sharp_pipeline =
  resize_width :: nat
  resize_height :: nat
  resize_fit :: fit_mode
  resize_withoutEnlargement :: bool
  jpeg_quality :: nat

text \<open>
  Everything outside the program that one invocation touches: the case tables of the
  language, the clock, the image library, the temporary image store, the messaging
  platform's download, and the configuration. \<open>file_stamp\<close> is the
  time-stamp-and-random-suffix part of a generated file name and \<open>path_bucket\<close>
  the year/month part of a generated path. A collaborator that throws returns \<open>Inl\<close>.
\<close>

record env =
  toLowerCase :: "jsstring \<Rightarrow> jsstring"
  toUpperCase :: "jsstring \<Rightarrow> jsstring"
  now :: nat
  sharp_metadata_of :: "buffer \<Rightarrow> js_error + sharp_metadata"
  sharp_toBuffer :: "sharp_pipeline \<Rightarrow> buffer \<Rightarrow> js_error + buffer"
  uploadToTempStorage :: "buffer \<Rightarrow> jsstring \<Rightarrow> js_error + jsstring"
  file_stamp :: jsstring
  path_bucket :: jsstring
  downloadImage :: "jsstring \<Rightarrow> js_error + buffer"
  availableTags :: "jsstring list"
  baseUrl :: jsstring

section \<open>The image pipeline (image/processor.ts)\<close>

record ImageValidationResult =
  iv_isValid :: bool
  iv_mimeType :: jsstring
  iv_width :: nat
  iv_height :: nat
  iv_size :: nat
  iv_format :: jsstring

record ProcessedImage =
  pi_buffer :: buffer
  pi_filename :: jsstring
  pi_relativePath :: jsstring
  pi_tempStorageKey :: jsstring
  pi_mimeType :: jsstring
  pi_size :: nat

definition maxFileSize :: nat where
  "maxFileSize = 10 * 1024 * 1024"

definition maxWidth :: nat where
  "maxWidth = 2048"

definition maxHeight :: nat where
  "maxHeight = 2048"

definition supportedFormats :: "jsstring list" where
  "supportedFormats = [ascii ''jpeg'', ascii ''jpg'', ascii ''png'', ascii ''webp'', ascii ''gif'']"

text \<open>
  \<open>validateImage\<close>. The three throws of the \<open>try\<close> block are ValidationErrors and the
  \<open>catch\<close> block rethrows them; what the library throws is wrapped into a
  ValidationError. A missing or empty format and a missing or zero dimension are falsy.
\<close>

definition validateImage :: "env \<Rightarrow> buffer \<Rightarrow> js_error + ImageValidationResult" where
  "validateImage e imageBuffer =
     (case sharp_metadata_of e imageBuffer of
        Inl err \<Rightarrow>
          if err_class err = ValidationError then Inl err
          else Inl (validation_error (ascii ''Image validation failed: '' @ message err)
                      ImageValidationFailed)
      | Inr metadata \<Rightarrow>
          if md_format metadata \<in> {None, Some []} \<or> md_width metadata \<in> {None, Some 0}
             \<or> md_height metadata \<in> {None, Some 0}
          then Inl (validation_error (ascii ''Invalid image metadata'') ImageFormatUnreadable)
          else
            let format = toLowerCase e (the (md_format metadata)) in
            if format \<notin> set supportedFormats
            then Inl (validation_error (ascii ''Unsupported image format: '' @ format)
                        (ImageFormatUnsupported (toUpperCase e format)))
            else
              let size = length imageBuffer in
              if size > maxFileSize
              then Inl (validation_error
                          (ascii ''Image file too large: '' @ decimal size @ ascii '' bytes'')
                          (ImageTooLarge (maxFileSize div 1024 div 1024)))
              else Inr \<lparr>iv_isValid = True,
                        iv_mimeType = ascii ''image/'' @
                          (if format = ascii ''jpg'' then ascii ''jpeg'' else format),
                        iv_width = the (md_width metadata),
                        iv_height = the (md_height metadata),
                        iv_size = size,
                        iv_format = format\<rparr>)"

text \<open>The pipeline of \<open>resizeImageIfNeeded\<close>, whatever the format of the input.\<close>

definition resize_request :: sharp_pipeline where
  "resize_request =
     \<lparr>resize_width = maxWidth, resize_height = maxHeight, resize_fit = FitInside,
      resize_withoutEnlargement = True, jpeg_quality = 85\<rparr>"

definition resizeImageIfNeeded ::
    "env \<Rightarrow> buffer \<Rightarrow> ImageValidationResult \<Rightarrow> js_error + buffer" where
  "resizeImageIfNeeded e imageBuffer validation =
     (if iv_width validation \<le> maxWidth \<and> iv_height validation \<le> maxHeight
      then Inr imageBuffer
      else case sharp_toBuffer e resize_request imageBuffer of
             Inl err \<Rightarrow>
               Inl (processing_error (ascii ''Image resize failed: '' @ message err)
                      ImageResizeFailed)
           | Inr resizedBuffer \<Rightarrow> Inr resizedBuffer)"

definition generateFilename :: "env \<Rightarrow> jsstring option \<Rightarrow> jsstring" where
  "generateFilename e originalFormat =
     (let extension =
            (if originalFormat = Some (ascii ''jpg'') then ascii ''jpeg''
             else if originalFormat \<in> {None, Some []} then ascii ''jpeg''
             else the originalFormat)
      in file_stamp e @ ascii ''.'' @ extension)"

definition generateImagePath :: "env \<Rightarrow> jsstring \<Rightarrow> jsstring" where
  "generateImagePath e filename =
     ascii ''source/images/'' @ path_bucket e @ ascii ''/'' @ filename"

text \<open>
  The \<open>catch\<close> block of \<open>processImage\<close>: the bot's two error classes pass through,
  anything else becomes a ProcessingError.
\<close>

definition processImage_catch :: "js_error \<Rightarrow> js_error" where
  "processImage_catch err =
     (if err_class err = ValidationError \<or> err_class err = ProcessingError then err
      else processing_error (ascii ''Image processing failed: '' @ message err)
             ImageProcessingFailed)"

text \<open>
  \<open>processImage\<close>. The test \<open>processedBuffer !== imageBuffer\<close> compares references:
  the two differ exactly when \<open>resizeImageIfNeeded\<close> went through the library, which
  returns a buffer of its own.
\<close>

definition processImage :: "env \<Rightarrow> buffer \<Rightarrow> js_error + ProcessedImage" where
  "processImage e imageBuffer =
     (case validateImage e imageBuffer of
        Inl err \<Rightarrow> Inl (processImage_catch err)
      | Inr validation \<Rightarrow>
     (case resizeImageIfNeeded e imageBuffer validation of
        Inl err \<Rightarrow> Inl (processImage_catch err)
      | Inr processedBuffer \<Rightarrow>
     (let filename = generateFilename e (Some (iv_format validation));
          relativePath = generateImagePath e filename
      in case uploadToTempStorage e processedBuffer filename of
        Inl err \<Rightarrow> Inl (processImage_catch err)
      | Inr tempStorageKey \<Rightarrow>
     (case (if iv_width validation \<le> maxWidth \<and> iv_height validation \<le> maxHeight
            then Inr validation else validateImage e processedBuffer) of
        Inl err \<Rightarrow> Inl (processImage_catch err)
      | Inr finalValidation \<Rightarrow>
          Inr \<lparr>pi_buffer = processedBuffer, pi_filename = filename,
               pi_relativePath = relativePath, pi_tempStorageKey = tempStorageKey,
               pi_mimeType = iv_mimeType finalValidation,
               pi_size = iv_size finalValidation\<rparr>))))"

section \<open>The message dispatcher (conversation/processor.ts)\<close>

datatype message_type = TextMessage | ImageMessage | OtherMessage

record LineMessage =
  msg_type :: message_type
  msg_text :: "jsstring option"
  msg_id :: "jsstring option"

text \<open>
  The replies of the dispatcher are fixed texts with a few interpolated values; each
  constructor stands for one text of the source and carries what is interpolated.
  \<open>ReplyImageError m\<close> is \<open>m\<close> followed by the list of supported formats and
  \<open>ReplyImageFailed\<close> the generic image-processing-failed text.
  \<open>ReplyConfirmation\<close> carries the title, the preview of the content (its first 100
  code units), whether the ellipsis follows, and the tags.
\<close>

datatype reply =
    ReplyUnsupportedType
  | ReplyImageOutsideStep
  | ReplyImageReceived "jsstring list"
  | ReplyImageFailed
  | ReplyImageError jsstring
  | ReplyStartPost
  | ReplyHelp
  | ReplyCancelled
  | ReplyNothingToCancel
  | ReplyUnknownCommand
  | ReplyIdleGuidance
  | ReplyTitleEmpty
  | ReplyTitleTooLong
  | ReplyTitleAccepted jsstring
  | ReplyContentEmpty
  | ReplyContentTooLong
  | ReplyContentAccepted
  | ReplySendImageInstead
  | ReplySelectValidTags "jsstring list"
  | ReplyTagSelectionError "jsstring list"
  | ReplyConfirmation "jsstring option" "jsstring option" bool "jsstring list"
  | ReplyPublished jsstring
  | ReplyConfirmCancelled
  | ReplyAnswerYesNo
  | ReplyErrorInput
  | ReplyErrorNetwork
  | ReplyErrorSession
  | ReplyErrorGeneric

record ProcessingResult =
  nextState :: "ConversationState option"
  responseMessage :: "reply option"

definition reply_only :: "reply \<Rightarrow> ProcessingResult" where
  "reply_only r = \<lparr>nextState = None, responseMessage = Some r\<rparr>"

definition state_and_reply :: "ConversationState \<Rightarrow> reply \<Rightarrow> ProcessingResult" where
  "state_and_reply s r = \<lparr>nextState = Some s, responseMessage = Some r\<rparr>"

text \<open>
  The vocabulary, as UTF-16 code units. The Japanese words are, in the order of the
  source: the start command (U+6295 U+7A3F U+4F5C U+6210), the help command in
  katakana, the cancel command in katakana, "yameru" in hiragana and "chuushi" in kanji.
\<close>

definition cmd_start :: jsstring where
  "cmd_start = [0x6295, 0x7A3F, 0x4F5C, 0x6210]"

definition cmd_help_ja :: jsstring where
  "cmd_help_ja = [0x30D8, 0x30EB, 0x30D7]"

definition cmd_cancel_ja :: jsstring where
  "cmd_cancel_ja = [0x30AD, 0x30E3, 0x30F3, 0x30BB, 0x30EB]"

definition cmd_yameru :: jsstring where
  "cmd_yameru = [0x3084, 0x3081, 0x308B]"

definition cmd_chuushi :: jsstring where
  "cmd_chuushi = [0x4E2D, 0x6B62]"

definition globalCommands :: "jsstring list" where
  "globalCommands =
     [cmd_start, cmd_help_ja, ascii ''help'', cmd_cancel_ja, ascii ''cancel'', cmd_yameru,
      cmd_chuushi]"

text \<open>
  The affirmative answers ("hai", yes, y, "koukai", "toukou", ok) and the negative
  ones ("iie", no, n, the cancel command, "shuusei").
\<close>

definition affirmative :: "jsstring list" where
  "affirmative =
     [[0x306F, 0x3044], ascii ''yes'', ascii ''y'', [0x516C, 0x958B], [0x6295, 0x7A3F],
      ascii ''ok'']"

definition negative :: "jsstring list" where
  "negative =
     [[0x3044, 0x3044, 0x3048], ascii ''no'', ascii ''n'', cmd_cancel_ja, [0x4FEE, 0x6B63]]"

text \<open>The new-tag prefix: "shinki" (U+65B0 U+898F) and an ASCII colon.\<close>

definition new_tag_prefix :: jsstring where
  "new_tag_prefix = [0x65B0, 0x898F, 0x3A]"

text \<open>
  The three phrases that \<open>processImageMessage\<close> looks for in the \<open>message\<close> of a
  caught error: "not supported", "too large" and "validation failed", in Japanese.
\<close>

definition phrase_unsupported :: jsstring where
  "phrase_unsupported =
     [0x30B5, 0x30DD, 0x30FC, 0x30C8, 0x3055, 0x308C, 0x3066, 0x3044, 0x306A, 0x3044]"

definition phrase_too_large :: jsstring where
  "phrase_too_large = [0x5927, 0x304D, 0x3059, 0x304E, 0x307E, 0x3059]"

definition phrase_validation_failed :: jsstring where
  "phrase_validation_failed = [0x691C, 0x8A3C, 0x306B, 0x5931, 0x6557]"

definition isGlobalCommand :: "env \<Rightarrow> jsstring \<Rightarrow> bool" where
  "isGlobalCommand e text \<longleftrightarrow> toLowerCase e text \<in> set globalCommands"

definition handleGlobalCommand ::
    "env \<Rightarrow> jsstring \<Rightarrow> ConversationState \<Rightarrow> js_error + ProcessingResult" where
  "handleGlobalCommand e command currentState =
     (let lowerCommand = toLowerCase e command in
      if lowerCommand = cmd_start then
        (case transitionTo (now e) currentState WAITING_TITLE no_updates of
           Inl err \<Rightarrow> Inl err
         | Inr st \<Rightarrow> Inr (state_and_reply st ReplyStartPost))
      else if lowerCommand \<in> set [cmd_help_ja, ascii ''help''] then
        Inr (reply_only ReplyHelp)
      else if lowerCommand \<in> set [cmd_cancel_ja, ascii ''cancel'', cmd_yameru, cmd_chuushi] then
        (if canCancel (step currentState) then
           (case transitionTo (now e) currentState IDLE no_updates of
              Inl err \<Rightarrow> Inl err
            | Inr st \<Rightarrow> Inr (state_and_reply st ReplyCancelled))
         else Inr (reply_only ReplyNothingToCancel))
      else Inr (reply_only ReplyUnknownCommand))"

definition handleIdleState :: "jsstring \<Rightarrow> ConversationState \<Rightarrow> ProcessingResult" where
  "handleIdleState text currentState = reply_only ReplyIdleGuidance"

definition handleTitleInput ::
    "env \<Rightarrow> jsstring \<Rightarrow> ConversationState \<Rightarrow> js_error + ProcessingResult" where
  "handleTitleInput e text currentState =
     (if length text < 1 then Inr (reply_only ReplyTitleEmpty)
      else if length text > 100 then Inr (reply_only ReplyTitleTooLong)
      else case transitionToNext (now e) currentState (no_updates\<lparr>upd_title := Some text\<rparr>) of
             Inl err \<Rightarrow> Inl err
           | Inr st \<Rightarrow> Inr (state_and_reply st (ReplyTitleAccepted text)))"

definition handleContentInput ::
    "env \<Rightarrow> jsstring \<Rightarrow> ConversationState \<Rightarrow> js_error + ProcessingResult" where
  "handleContentInput e text currentState =
     (if length text < 1 then Inr (reply_only ReplyContentEmpty)
      else if length text > 5000 then Inr (reply_only ReplyContentTooLong)
      else case transitionToNext (now e) currentState (no_updates\<lparr>upd_content := Some text\<rparr>) of
             Inl err \<Rightarrow> Inl err
           | Inr st \<Rightarrow> Inr (state_and_reply st ReplyContentAccepted))"

definition handleImageWaitingState :: "jsstring \<Rightarrow> ConversationState \<Rightarrow> ProcessingResult" where
  "handleImageWaitingState text currentState = reply_only ReplySendImageInstead"

text \<open>
  The loop of \<open>parseTagSelection\<close> over the parsed numbers: \<open>selected\<close> is the array
  being filled.
\<close>

fun select_tags :: "jsstring list \<Rightarrow> int option list \<Rightarrow> jsstring list \<Rightarrow> jsstring list" where
  "select_tags catalogue [] selected = selected"
| "select_tags catalogue (num # rest) selected =
     select_tags catalogue rest
       (case num of
          None \<Rightarrow> selected
        | Some n \<Rightarrow>
            if n \<ge> 1 \<and> n \<le> int (length catalogue) then
              (let tag = catalogue ! nat (n - 1) in
               if tag \<in> set selected then selected else selected @ [tag])
            else selected)"

definition parseTagSelection :: "env \<Rightarrow> jsstring \<Rightarrow> jsstring list" where
  "parseTagSelection e text =
     (if startsWith text new_tag_prefix then
        (let newTag = trim (substring_from 3 text) in
         if length newTag > 0 \<and> length newTag \<le> 20 then [newTag] else [])
      else
        (let tagNumbers = map (\<lambda>num. parseInt (trim num)) (split_comma text) in
         select_tags (availableTags e) tagNumbers []))"

definition generateConfirmationMessage :: "ConversationState \<Rightarrow> reply" where
  "generateConfirmationMessage st =
     ReplyConfirmation (title (data st))
       (map_option (take 100) (content (data st)))
       (case content (data st) of None \<Rightarrow> False | Some c \<Rightarrow> c \<noteq> [] \<and> length c > 100)
       (tags (data st))"

text \<open>
  \<open>handleTagSelection\<close> runs inside a \<open>try\<close>: an error of the transition becomes a
  reply.
\<close>

definition handleTagSelection ::
    "env \<Rightarrow> jsstring \<Rightarrow> ConversationState \<Rightarrow> js_error + ProcessingResult" where
  "handleTagSelection e text currentState =
     (let selectedTags = parseTagSelection e text in
      if length selectedTags = 0 then Inr (reply_only (ReplySelectValidTags (availableTags e)))
      else case transitionToNext (now e) currentState (no_updates\<lparr>upd_tags := Some selectedTags\<rparr>) of
             Inl err \<Rightarrow> Inr (reply_only (ReplyTagSelectionError (availableTags e)))
           | Inr st \<Rightarrow> Inr (state_and_reply st (generateConfirmationMessage st)))"

definition handleConfirmation ::
    "env \<Rightarrow> jsstring \<Rightarrow> ConversationState \<Rightarrow> js_error + ProcessingResult" where
  "handleConfirmation e text currentState =
     (let lowerText = trim (toLowerCase e text) in
      if lowerText \<in> set affirmative then
        (case transitionTo (now e) currentState IDLE no_updates of
           Inl err \<Rightarrow> Inl err
         | Inr st \<Rightarrow> Inr (state_and_reply st (ReplyPublished (baseUrl e))))
      else if lowerText \<in> set negative then
        (case transitionTo (now e) currentState IDLE no_updates of
           Inl err \<Rightarrow> Inl err
         | Inr st \<Rightarrow> Inr (state_and_reply st ReplyConfirmCancelled))
      else Inr (reply_only ReplyAnswerYesNo))"

text \<open>
  \<open>processTextMessage\<close>. The \<open>default\<close> branch of its \<open>switch\<close> is left out: the
  six steps are all the values of the enumeration.
\<close>

definition processTextMessage ::
    "env \<Rightarrow> jsstring \<Rightarrow> ConversationState \<Rightarrow> js_error + ProcessingResult" where
  "processTextMessage e text currentState =
     (let trimmedText = trim text in
      if isGlobalCommand e trimmedText then handleGlobalCommand e trimmedText currentState
      else case step currentState of
             IDLE \<Rightarrow> Inr (handleIdleState trimmedText currentState)
           | WAITING_TITLE \<Rightarrow> handleTitleInput e trimmedText currentState
           | WAITING_CONTENT \<Rightarrow> handleContentInput e trimmedText currentState
           | WAITING_IMAGE \<Rightarrow> Inr (handleImageWaitingState trimmedText currentState)
           | WAITING_TAGS \<Rightarrow> handleTagSelection e trimmedText currentState
           | CONFIRMING \<Rightarrow> handleConfirmation e trimmedText currentState)"

text \<open>
  The \<open>catch\<close> block of \<open>processImageMessage\<close>: whatever was thrown becomes a reply
  and no state.
\<close>

definition image_error_reply :: "js_error \<Rightarrow> ProcessingResult" where
  "image_error_reply err =
     reply_only
       (if includes_str (message err) phrase_unsupported
           \<or> includes_str (message err) phrase_too_large
           \<or> includes_str (message err) phrase_validation_failed
        then ReplyImageError (message err)
        else ReplyImageFailed)"

definition processImageMessage ::
    "env \<Rightarrow> jsstring \<Rightarrow> ConversationState \<Rightarrow> js_error + ProcessingResult" where
  "processImageMessage e imageId currentState =
     (if step currentState \<noteq> WAITING_IMAGE then Inr (reply_only ReplyImageOutsideStep)
      else case downloadImage e imageId of
             Inl err \<Rightarrow> Inr (image_error_reply err)
           | Inr imageBuffer \<Rightarrow>
          (case processImage e imageBuffer of
             Inl err \<Rightarrow> Inr (image_error_reply err)
           | Inr processedImage \<Rightarrow>
          (case transitionToNext (now e) currentState
                  (no_updates\<lparr>upd_imageUrl := Some (pi_tempStorageKey processedImage),
                              upd_imagePath := Some (pi_relativePath processedImage)\<rparr>) of
             Inl err \<Rightarrow> Inr (image_error_reply err)
           | Inr st \<Rightarrow> Inr (state_and_reply st (ReplyImageReceived (availableTags e))))))"

text \<open>
  \<open>processMessage\<close>: its \<open>catch\<close> block logs and rethrows, and its user id is not
  used.
\<close>

definition processMessage ::
    "env \<Rightarrow> LineMessage \<Rightarrow> ConversationState \<Rightarrow> js_error + ProcessingResult" where
  "processMessage e msg currentState =
     (if msg_type msg = TextMessage \<and> msg_text msg \<noteq> None
      then processTextMessage e (the (msg_text msg)) currentState
      else if msg_type msg = ImageMessage \<and> msg_id msg \<notin> {None, Some []}
      then processImageMessage e (the (msg_id msg)) currentState
      else Inr (reply_only ReplyUnsupportedType))"

section \<open>The orchestrator (conversation/manager.ts)\<close>

text \<open>
  The session store and the messaging client as one invocation sees them: \<open>store_get\<close>
  answers with the stored state, with nothing, or throws; \<open>store_set\<close> and
  \<open>replyMessage\<close> succeed (\<open>None\<close>) or throw.
\<close>

record collaborators =
  store_get :: "jsstring \<Rightarrow> js_error + ConversationState option"
  store_set :: "jsstring \<Rightarrow> ConversationState \<Rightarrow> js_error option"
  replyMessage :: "jsstring \<Rightarrow> reply \<Rightarrow> js_error option"

text \<open>
  The calls an invocation makes, in the order it makes them. \<open>Dispatched\<close> marks the
  moment the dispatcher's \<open>processMessage\<close> has returned or thrown.
\<close>

datatype event =
    StoreGet jsstring
  | StoreSet jsstring ConversationState
  | Dispatched
  | Replied jsstring reply

text \<open>
  An error inside a template literal: its name, a colon and its message, or the name
  alone when the message is empty.
\<close>

definition error_to_string :: "js_error \<Rightarrow> jsstring" where
  "error_to_string err =
     (let name = (if err_class err = PlainError then ascii ''Error'' else ascii ''LineBotError'')
      in if message err = [] then name else name @ ascii '': '' @ message err)"

text \<open>\<open>getCurrentState\<close>: the state and the calls made to obtain it.\<close>

definition getCurrentState ::
    "collaborators \<Rightarrow> env \<Rightarrow> jsstring \<Rightarrow> (js_error + ConversationState) \<times> event list" where
  "getCurrentState c e userId =
     (case store_get c userId of
        Inl err \<Rightarrow>
          (Inl (plain_error (ascii ''Failed to get conversation state: '' @ error_to_string err)),
           [StoreGet userId])
      | Inr (Some state) \<Rightarrow> (Inr state, [StoreGet userId])
      | Inr None \<Rightarrow>
          (let newState = createIdleState (now e) in
           case store_set c userId newState of
             Some err \<Rightarrow>
               (Inl (plain_error (ascii ''Failed to get conversation state: '' @ error_to_string err)),
                [StoreGet userId, StoreSet userId newState])
           | None \<Rightarrow> (Inr newState, [StoreGet userId, StoreSet userId newState])))"

definition updateState ::
    "collaborators \<Rightarrow> jsstring \<Rightarrow> ConversationState \<Rightarrow> js_error option \<times> event list" where
  "updateState c userId newState =
     (case store_set c userId newState of
        Some err \<Rightarrow>
          (Some (plain_error (ascii ''Failed to update conversation state: '' @ error_to_string err)),
           [StoreSet userId newState])
      | None \<Rightarrow> (None, [StoreSet userId newState]))"

definition getErrorMessage :: "js_error \<Rightarrow> reply" where
  "getErrorMessage err =
     (if includes_str (message err) (ascii ''validation'') then ReplyErrorInput
      else if includes_str (message err) (ascii ''network'')
              \<or> includes_str (message err) (ascii ''timeout'') then ReplyErrorNetwork
      else if includes_str (message err) (ascii ''storage'')
              \<or> includes_str (message err) (ascii ''session'') then ReplyErrorSession
      else ReplyErrorGeneric)"

text \<open>
  The \<open>catch\<close> block of the orchestrator's \<open>processMessage\<close>: the error text is
  sent (a failure to send is swallowed) and the error is thrown again.
\<close>

definition manager_catch ::
    "jsstring \<Rightarrow> event list \<Rightarrow> js_error \<Rightarrow> js_error option \<times> event list" where
  "manager_catch replyToken events err =
     (Some err, events @ [Replied replyToken (getErrorMessage err)])"

text \<open>
  The orchestrator's \<open>processMessage\<close>: the error it throws, if any, and the calls it
  made. The reply of the \<open>try\<close> block is sent when \<open>responseMessage\<close> is a non-empty
  string, which every reply text is.
\<close>

definition manager_processMessage ::
    "collaborators \<Rightarrow> env \<Rightarrow> jsstring \<Rightarrow> LineMessage \<Rightarrow> jsstring
       \<Rightarrow> js_error option \<times> event list" where
  "manager_processMessage c e userId msg replyToken =
     (case getCurrentState c e userId of
        (Inl err, ev1) \<Rightarrow> manager_catch replyToken ev1 err
      | (Inr currentState, ev1) \<Rightarrow>
     (case processMessage e msg currentState of
        Inl err \<Rightarrow> manager_catch replyToken (ev1 @ [Dispatched]) err
      | Inr result \<Rightarrow>
     (case (case nextState result of
              None \<Rightarrow> (None, [])
            | Some st \<Rightarrow> updateState c userId st) of
        (Some err, ev2) \<Rightarrow> manager_catch replyToken (ev1 @ [Dispatched] @ ev2) err
      | (None, ev2) \<Rightarrow>
     (case responseMessage result of
        None \<Rightarrow> (None, ev1 @ [Dispatched] @ ev2)
      | Some r \<Rightarrow>
          (case replyMessage c replyToken r of
             Some err \<Rightarrow> manager_catch replyToken (ev1 @ [Dispatched] @ ev2 @ [Replied replyToken r]) err
           | None \<Rightarrow> (None, ev1 @ [Dispatched] @ ev2 @ [Replied replyToken r]))))))"

text \<open>What a trace says about the store.\<close>

fun is_get :: "event \<Rightarrow> bool" where
  "is_get (StoreGet u) = True"
| "is_get ev = False"

fun is_set :: "event \<Rightarrow> bool" where
  "is_set (StoreSet u s) = True"
| "is_set ev = False"

definition reads :: "event list \<Rightarrow> nat" where
  "reads evs = length (filter is_get evs)"

definition writes :: "event list \<Rightarrow> nat" where
  "writes evs = length (filter is_set evs)"

text \<open>The calls made before the dispatcher has finished with the message.\<close>

definition before_dispatched :: "event list \<Rightarrow> event list" where
  "before_dispatched evs = takeWhile (\<lambda>ev. ev \<noteq> Dispatched) evs"

section \<open>Reference notions for the properties\<close>












text \<open>
  What the image library promises for a pipeline with \<open>fit: inside\<close> and
  \<open>withoutEnlargement\<close>: the output is a JPEG that fits the requested box, is no larger
  than the input in either dimension, and keeps the aspect ratio up to the rounding of
  one pixel row or column. Dimensions are those the library itself reads back.
\<close>

definition aspect_kept :: "nat \<Rightarrow> nat \<Rightarrow> nat \<Rightarrow> nat \<Rightarrow> bool" where
  "aspect_kept w h w' h' \<longleftrightarrow>
     int w' * int h - int h' * int w \<le> int (max w h) \<and>
     int h' * int w - int w' * int h \<le> int (max w h)"

definition fits_inside :: "sharp_pipeline \<Rightarrow> sharp_metadata \<Rightarrow> sharp_metadata \<Rightarrow> bool" where
  "fits_inside p m_in m_out \<longleftrightarrow>
     (case (md_width m_in, md_height m_in, md_width m_out, md_height m_out) of
        (Some w, Some h, Some w', Some h') \<Rightarrow>
          w' \<le> resize_width p \<and> h' \<le> resize_height p \<and> w' \<le> w \<and> h' \<le> h
          \<and> aspect_kept w h w' h' \<and> md_format m_out = Some (ascii ''jpeg'')
      | _ \<Rightarrow> False)"

definition library_fits_inside :: "env \<Rightarrow> bool" where
  "library_fits_inside e \<longleftrightarrow>
     (\<forall>p buf out m_in.
        resize_fit p = FitInside \<and> resize_withoutEnlargement p
        \<and> sharp_metadata_of e buf = Inr m_in \<and> sharp_toBuffer e p buf = Inr out
        \<longrightarrow> (\<exists>m_out. sharp_metadata_of e out = Inr m_out \<and> fits_inside p m_in m_out))"

section \<open>Concrete collaborators, for evaluating the program on inputs\<close>

text \<open>
  A stand-in image library that recognises buffers by their first byte: 1 is a 100 x 100
  JPEG, 2 a 3000 x 2500 PNG, 3 a 2048 x 1707 JPEG, 4 a 100 x 100 TIFF; anything else is
  not an image. It resizes the 3000 x 2500 image to the 2048 x 1707 one.
\<close>

definition image_meta :: "jsstring \<Rightarrow> nat \<Rightarrow> nat \<Rightarrow> sharp_metadata" where
  "image_meta f w h = \<lparr>md_format = Some f, md_width = Some w, md_height = Some h\<rparr>"

fun sample_metadata :: "buffer \<Rightarrow> js_error + sharp_metadata" where
  "sample_metadata [] = Inl (plain_error (ascii ''Input Buffer is empty''))"
| "sample_metadata (b # rest) =
     (if b = 1 then Inr (image_meta (ascii ''jpeg'') 100 100)
      else if b = 2 then Inr (image_meta (ascii ''png'') 3000 2500)
      else if b = 3 then Inr (image_meta (ascii ''jpeg'') 2048 1707)
      else if b = 4 then Inr (image_meta (ascii ''tiff'') 100 100)
      else Inl (plain_error (ascii ''Input buffer contains unsupported image format'')))"

definition sample_toBuffer :: "sharp_pipeline \<Rightarrow> buffer \<Rightarrow> js_error + buffer" where
  "sample_toBuffer p buf =
     (if p = resize_request \<and> take 1 buf = [2] then Inr [3, 0, 0]
      else Inl (plain_error (ascii ''Input buffer contains unsupported image format'')))"

definition sample_download :: "jsstring \<Rightarrow> js_error + buffer" where
  "sample_download imageId =
     (if imageId = ascii ''small'' then Inr [1, 0, 0, 0]
      else if imageId = ascii ''large'' then Inr [2, 0, 0, 0, 0]
      else if imageId = ascii ''tiff'' then Inr [4, 0, 0, 0]
      else if imageId = ascii ''text'' then Inr [0x6E, 0x6F]
      else Inl (plain_error (ascii ''LINE API download failed: 404 Not Found'')))"

definition sample_env :: env where
  "sample_env =
     \<lparr>toLowerCase = ascii_lower, toUpperCase = ascii_upper, now = 2000,
      sharp_metadata_of = sample_metadata, sharp_toBuffer = sample_toBuffer,
      uploadToTempStorage = (\<lambda>buf filename. Inr (ascii ''temp-images/'' @ filename)),
      file_stamp = ascii ''2024-01-15T10-30-00-000Z-abc123'',
      path_bucket = ascii ''2024/01'',
      downloadImage = sample_download,
      availableTags = [ascii ''A'', ascii ''B'', ascii ''C''],
      baseUrl = ascii ''https://test-blog.com''\<rparr>"

text \<open>A conversation that has collected everything and waits for the confirmation.\<close>

definition sample_post :: PostData where
  "sample_post =
     \<lparr>title = Some (ascii ''T''), content = Some (ascii ''C''),
      imageUrl = Some (ascii ''temp-images/x.jpeg''),
      imagePath = Some (ascii ''source/images/2024/01/x.jpeg''), tags = [ascii ''A'']\<rparr>"

definition sample_state :: "ConversationStep \<Rightarrow> ConversationState" where
  "sample_state s = \<lparr>step = s, data = sample_post, createdAt = 1000, updatedAt = 1500\<rparr>"

definition text_message :: "jsstring \<Rightarrow> LineMessage" where
  "text_message t = \<lparr>msg_type = TextMessage, msg_text = Some t, msg_id = None\<rparr>"

definition image_message :: "jsstring \<Rightarrow> LineMessage" where
  "image_message i = \<lparr>msg_type = ImageMessage, msg_text = None, msg_id = Some i\<rparr>"

text \<open>A session store that knows no user, and one that holds a state for every user.\<close>

definition empty_store :: collaborators where
  "empty_store =
     \<lparr>store_get = (\<lambda>u. Inr None), store_set = (\<lambda>u s. None), replyMessage = (\<lambda>t r. None)\<rparr>"

definition store_holding :: "ConversationState \<Rightarrow> collaborators" where
  "store_holding s =
     \<lparr>store_get = (\<lambda>u. Inr (Some s)), store_set = (\<lambda>u s. None), replyMessage = (\<lambda>t r. None)\<rparr>"

section \<open>Properties of the transition table\<close>

text \<open>
  C1. For every pair of steps, \<open>isValidTransition from to\<close> is true exactly when
  \<open>to\<close> is the forward-flow successor of \<open>from\<close>, or \<open>to\<close> is IDLE and \<open>from\<close>
  is not; IDLE to IDLE is rejected.
\<close>

theorem isValidTransition_iff:
  "(isValidTransition from to \<longleftrightarrow> (getNextStep from = Some to \<or> (to = IDLE \<and> from \<noteq> IDLE)))
   \<and> \<not> isValidTransition IDLE IDLE"
  by (cases "from"; cases "to"; simp add: isValidTransition_def)

section \<open>Properties of the dispatcher's transitions\<close>

lemma trim_cmd_start: "trim cmd_start = cmd_start"
  by (simp add: trim_def trimStart_def trimEnd_def cmd_start_def isWhiteSpace_def)

lemma not_valid_to_title: "s \<noteq> IDLE \<Longrightarrow> \<not> isValidTransition s WAITING_TITLE"
  by (cases s) (simp_all add: isValidTransition_def)

lemma sample_lower_start: "toLowerCase sample_env cmd_start = cmd_start"
  by (simp add: sample_env_def ascii_lower_def cmd_start_def)

lemma merge_no_updates: "merge_data d no_updates = d"
  by (simp add: merge_data_def no_updates_def)

lemma transitionTo_no_updates:
  "transitionTo n st t no_updates = Inr ns \<Longrightarrow>
     step ns = t \<and> data ns = data st \<and> createdAt ns = createdAt st"
  by (auto simp: transitionTo_def updateStateStep_def merge_no_updates split: if_splits)

lemma transitionToNext_step:
  "transitionToNext n st u = Inr ns \<Longrightarrow> getNextStep (step st) = Some (step ns)"
  by (auto simp: transitionToNext_def updateStateStep_def split: option.splits if_splits)

lemma handleGlobalCommand_data:
  assumes "handleGlobalCommand e cmd st = Inr r" and "nextState r = Some ns" and "step ns = IDLE"
  shows "data ns = data st \<and> createdAt ns = createdAt st"
  using assms
  by (auto simp: handleGlobalCommand_def Let_def reply_only_def state_and_reply_def
           split: if_splits sum.splits dest: transitionTo_no_updates)

lemma handleConfirmation_data:
  assumes "handleConfirmation e t st = Inr r" and "nextState r = Some ns"
  shows "step ns = IDLE \<and> data ns = data st \<and> createdAt ns = createdAt st"
  using assms
  by (auto simp: handleConfirmation_def Let_def reply_only_def state_and_reply_def
           split: if_splits sum.splits dest: transitionTo_no_updates)

lemma handleTitleInput_step:
  assumes "handleTitleInput e t st = Inr r" and "nextState r = Some ns"
  shows "getNextStep (step st) = Some (step ns)"
  using assms
  by (auto simp: handleTitleInput_def reply_only_def state_and_reply_def
           split: if_splits sum.splits dest: transitionToNext_step)

lemma handleContentInput_step:
  assumes "handleContentInput e t st = Inr r" and "nextState r = Some ns"
  shows "getNextStep (step st) = Some (step ns)"
  using assms
  by (auto simp: handleContentInput_def reply_only_def state_and_reply_def
           split: if_splits sum.splits dest: transitionToNext_step)

lemma handleTagSelection_step:
  assumes "handleTagSelection e t st = Inr r" and "nextState r = Some ns"
  shows "getNextStep (step st) = Some (step ns)"
  using assms
  by (auto simp: handleTagSelection_def Let_def reply_only_def state_and_reply_def
           split: if_splits sum.splits dest: transitionToNext_step)

text \<open>
  C3. The claim is that completion and cancellation reset the conversation to a fresh
  idle instance with cleared post data. The code moves the step to IDLE through
  \<open>transitionTo\<close> with no data updates: whenever the dispatcher answers a text
  message with a state in step IDLE, that state carries the post data (and the creation
  time) of the state it started from.
\<close>

theorem dispatcher_reset_keeps_post_data:
  assumes "processTextMessage e text st = Inr r" and "nextState r = Some ns" and "step ns = IDLE"
  shows "data ns = data st \<and> createdAt ns = createdAt st"
proof (cases "isGlobalCommand e (trim text)")
  case True
  with assms show ?thesis
    by (simp add: processTextMessage_def handleGlobalCommand_data)
next
  case False
  show ?thesis
  proof (cases "step st")
    case IDLE
    with False assms show ?thesis
      by (auto simp: processTextMessage_def handleIdleState_def reply_only_def)
  next
    case WAITING_TITLE
    with False assms handleTitleInput_step[of e "trim text" st r ns] show ?thesis
      by (simp add: processTextMessage_def)
  next
    case WAITING_CONTENT
    with False assms handleContentInput_step[of e "trim text" st r ns] show ?thesis
      by (simp add: processTextMessage_def)
  next
    case WAITING_IMAGE
    with False assms show ?thesis
      by (auto simp: processTextMessage_def handleImageWaitingState_def reply_only_def)
  next
    case WAITING_TAGS
    with False assms handleTagSelection_step[of e "trim text" st r ns] show ?thesis
      by (simp add: processTextMessage_def)
  next
    case CONFIRMING
    with False assms handleConfirmation_data[of e "trim text" st r ns] show ?thesis
      by (simp add: processTextMessage_def)
  qed
qed

text \<open>The affirmative answer "hai" to a complete post.\<close>

lemma sample_hai:
  "processTextMessage sample_env [0x306F, 0x3044] (sample_state CONFIRMING)
     = Inr (state_and_reply \<lparr>step = IDLE, data = sample_post, createdAt = 1000, updatedAt = 2000\<rparr>
              (ReplyPublished (ascii ''https://test-blog.com'')))"
  by (simp add: processTextMessage_def isGlobalCommand_def globalCommands_def sample_env_def
        ascii_lower_def trim_def trimStart_def trimEnd_def isWhiteSpace_def cmd_start_def
        cmd_help_ja_def cmd_cancel_ja_def cmd_yameru_def cmd_chuushi_def ascii_def
        sample_state_def handleConfirmation_def affirmative_def transitionTo_def
        isValidTransition_def updateStateStep_def merge_no_updates)

theorem dispatcher_reset_keeps_post_data_witness:
  "processTextMessage sample_env [0x306F, 0x3044] (sample_state CONFIRMING)
     = Inr (state_and_reply \<lparr>step = IDLE, data = sample_post, createdAt = 1000, updatedAt = 2000\<rparr>
              (ReplyPublished (ascii ''https://test-blog.com'')))
   \<and> data \<lparr>step = IDLE, data = sample_post, createdAt = 1000, updatedAt = 2000\<rparr>
       = data (sample_state CONFIRMING)
   \<and> title sample_post = Some (ascii ''T'') \<and> tags sample_post = [ascii ''A'']"
  using dispatcher_reset_keeps_post_data[OF sample_hai, of "\<lparr>step = IDLE, data = sample_post, createdAt = 1000, updatedAt = 2000\<rparr>"]
    sample_hai
  by (simp add: state_and_reply_def sample_post_def sample_state_def)

section \<open>Properties of the text handlers\<close>

lemma merge_title: "merge_data d (no_updates\<lparr>upd_title := Some t\<rparr>) = d\<lparr>title := Some t\<rparr>"
  by (cases d) (simp add: merge_data_def no_updates_def)

lemma merge_content: "merge_data d (no_updates\<lparr>upd_content := Some t\<rparr>) = d\<lparr>content := Some t\<rparr>"
  by (cases d) (simp add: merge_data_def no_updates_def)

lemma transitionToNext_title:
  "step st = WAITING_TITLE \<Longrightarrow>
   transitionToNext n st (no_updates\<lparr>upd_title := Some t\<rparr>)
     = Inr (st\<lparr>step := WAITING_CONTENT, data := (data st)\<lparr>title := Some t\<rparr>, updatedAt := n\<rparr>)"
  by (simp add: transitionToNext_def isValidTransition_def updateStateStep_def merge_title)

lemma transitionToNext_content:
  "step st = WAITING_CONTENT \<Longrightarrow>
   transitionToNext n st (no_updates\<lparr>upd_content := Some t\<rparr>)
     = Inr (st\<lparr>step := WAITING_IMAGE, data := (data st)\<lparr>content := Some t\<rparr>, updatedAt := n\<rparr>)"
  by (simp add: transitionToNext_def isValidTransition_def updateStateStep_def merge_content)

lemma handleTitleInput_eq:
  "step st = WAITING_TITLE \<Longrightarrow>
      handleTitleInput e text st =
        (if text = [] then Inr \<lparr>nextState = None, responseMessage = Some ReplyTitleEmpty\<rparr>
         else if length text > 100
         then Inr \<lparr>nextState = None, responseMessage = Some ReplyTitleTooLong\<rparr>
         else Inr \<lparr>nextState = Some (st\<lparr>step := WAITING_CONTENT,
                                         data := (data st)\<lparr>title := Some text\<rparr>,
                                         updatedAt := now e\<rparr>),
                   responseMessage = Some (ReplyTitleAccepted text)\<rparr>)"
  by (simp add: handleTitleInput_def reply_only_def state_and_reply_def transitionToNext_title)

lemma handleContentInput_eq:
  "step st = WAITING_CONTENT \<Longrightarrow>
      handleContentInput e text st =
        (if text = [] then Inr \<lparr>nextState = None, responseMessage = Some ReplyContentEmpty\<rparr>
         else if length text > 5000
         then Inr \<lparr>nextState = None, responseMessage = Some ReplyContentTooLong\<rparr>
         else Inr \<lparr>nextState = Some (st\<lparr>step := WAITING_IMAGE,
                                         data := (data st)\<lparr>content := Some text\<rparr>,
                                         updatedAt := now e\<rparr>),
                   responseMessage = Some ReplyContentAccepted\<rparr>)"
  by (simp add: handleContentInput_def reply_only_def state_and_reply_def transitionToNext_content)

text \<open>
  C7. In step WAITING_TITLE the title handler rejects the empty text and a text of more
  than 100 code units, each with its own guidance reply and no new state, and stores any
  other text as the title while the step advances to WAITING_CONTENT. In step
  WAITING_CONTENT the content handler does the same with the limit 5000 and the step
  WAITING_IMAGE. The witness evaluates the boundaries: 100 and 5000 code units are
  accepted, 101 and 5001 and the empty text are rejected.
\<close>

theorem title_and_content_input:
  "(step st = WAITING_TITLE \<longrightarrow>
      handleTitleInput e text st =
        (if text = [] then Inr \<lparr>nextState = None, responseMessage = Some ReplyTitleEmpty\<rparr>
         else if length text > 100
         then Inr \<lparr>nextState = None, responseMessage = Some ReplyTitleTooLong\<rparr>
         else Inr \<lparr>nextState = Some (st\<lparr>step := WAITING_CONTENT,
                                         data := (data st)\<lparr>title := Some text\<rparr>,
                                         updatedAt := now e\<rparr>),
                   responseMessage = Some (ReplyTitleAccepted text)\<rparr>))
   \<and> (step st = WAITING_CONTENT \<longrightarrow>
      handleContentInput e text st =
        (if text = [] then Inr \<lparr>nextState = None, responseMessage = Some ReplyContentEmpty\<rparr>
         else if length text > 5000
         then Inr \<lparr>nextState = None, responseMessage = Some ReplyContentTooLong\<rparr>
         else Inr \<lparr>nextState = Some (st\<lparr>step := WAITING_IMAGE,
                                         data := (data st)\<lparr>content := Some text\<rparr>,
                                         updatedAt := now e\<rparr>),
                   responseMessage = Some ReplyContentAccepted\<rparr>))"
  by (simp add: handleTitleInput_eq handleContentInput_eq)

theorem title_and_content_input_witness:
  "handleTitleInput sample_env (replicate 100 0x61) (sample_state WAITING_TITLE)
     = Inr \<lparr>nextState = Some \<lparr>step = WAITING_CONTENT,
                                data = sample_post\<lparr>title := Some (replicate 100 0x61)\<rparr>,
                                createdAt = 1000, updatedAt = 2000\<rparr>,
             responseMessage = Some (ReplyTitleAccepted (replicate 100 0x61))\<rparr>
   \<and> handleTitleInput sample_env (replicate 101 0x61) (sample_state WAITING_TITLE)
     = Inr \<lparr>nextState = None, responseMessage = Some ReplyTitleTooLong\<rparr>
   \<and> handleTitleInput sample_env [] (sample_state WAITING_TITLE)
     = Inr \<lparr>nextState = None, responseMessage = Some ReplyTitleEmpty\<rparr>
   \<and> handleContentInput sample_env (replicate 5000 0x61) (sample_state WAITING_CONTENT)
     = Inr \<lparr>nextState = Some \<lparr>step = WAITING_IMAGE,
                                data = sample_post\<lparr>content := Some (replicate 5000 0x61)\<rparr>,
                                createdAt = 1000, updatedAt = 2000\<rparr>,
             responseMessage = Some ReplyContentAccepted\<rparr>
   \<and> handleContentInput sample_env (replicate 5001 0x61) (sample_state WAITING_CONTENT)
     = Inr \<lparr>nextState = None, responseMessage = Some ReplyContentTooLong\<rparr>
   \<and> handleContentInput sample_env [] (sample_state WAITING_CONTENT)
     = Inr \<lparr>nextState = None, responseMessage = Some ReplyContentEmpty\<rparr>"
  using title_and_content_input[of "sample_state WAITING_TITLE" sample_env "replicate 100 0x61"]
    title_and_content_input[of "sample_state WAITING_TITLE" sample_env "replicate 101 0x61"]
    title_and_content_input[of "sample_state WAITING_TITLE" sample_env "[]"]
    title_and_content_input[of "sample_state WAITING_CONTENT" sample_env "replicate 5000 0x61"]
    title_and_content_input[of "sample_state WAITING_CONTENT" sample_env "replicate 5001 0x61"]
    title_and_content_input[of "sample_state WAITING_CONTENT" sample_env "[]"]
  by (simp add: sample_state_def sample_env_def)

text \<open>Facts about \<open>trim\<close>.\<close>

lemma trimStart_hd: "trimStart s \<noteq> [] \<Longrightarrow> \<not> isWhiteSpace (hd (trimStart s))"
  by (simp add: trimStart_def hd_dropWhile)

lemma trimEnd_Cons: "\<not> isWhiteSpace x \<Longrightarrow> trimEnd (x # s) = x # trimEnd s"
  by (simp add: trimEnd_def dropWhile_append3)

lemma trimEnd_last: "trimEnd s \<noteq> [] \<Longrightarrow> \<not> isWhiteSpace (last (trimEnd s))"
  by (simp add: trimEnd_def last_rev hd_dropWhile)

lemma trim_hd: "trim s \<noteq> [] \<Longrightarrow> \<not> isWhiteSpace (hd (trim s))"
proof -
  assume ne: "trim s \<noteq> []"
  then have "trimStart s \<noteq> []" by (auto simp: trim_def trimEnd_def)
  then obtain x t where xt: "trimStart s = x # t" by (cases "trimStart s") auto
  with trimStart_hd[of s] have nx: "\<not> isWhiteSpace x" by simp
  then show ?thesis by (simp add: trim_def xt trimEnd_Cons)
qed

lemma trim_last: "trim s \<noteq> [] \<Longrightarrow> \<not> isWhiteSpace (last (trim s))"
  by (simp add: trim_def trimEnd_last)

lemma dropWhile_rev_fixed: "s \<noteq> [] \<Longrightarrow> \<not> P (last s) \<Longrightarrow> dropWhile P (rev s) = rev s"
  by (simp add: dropWhile_eq_self_iff hd_rev)

lemma trim_fixed:
  assumes "s = [] \<or> (\<not> isWhiteSpace (hd s) \<and> \<not> isWhiteSpace (last s))"
  shows "trim s = s"
proof (cases "s = []")
  case True
  then show ?thesis by (simp add: trim_def trimStart_def trimEnd_def)
next
  case False
  with assms have a: "\<not> isWhiteSpace (hd s)" and b: "\<not> isWhiteSpace (last s)" by auto
  from False a have "dropWhile isWhiteSpace s = s" by (simp add: dropWhile_eq_self_iff)
  with False b show ?thesis by (simp add: trim_def trimStart_def trimEnd_def dropWhile_rev_fixed)
qed

lemma trim_idem: "trim (trim s) = trim s"
  using trim_fixed[of "trim s"] trim_hd[of s] trim_last[of s] by blast

lemma trim_all_ws:
  assumes "\<forall>c\<in>set s. isWhiteSpace c"
  shows "trim s = []"
proof -
  from assms have "dropWhile isWhiteSpace s = []" by simp
  then show ?thesis by (simp only: trim_def trimStart_def trimEnd_def rev.simps dropWhile.simps)
qed

lemma no_command_is_empty: "toLowerCase e [] = [] \<Longrightarrow> \<not> isGlobalCommand e []"
  by (simp add: isGlobalCommand_def globalCommands_def cmd_start_def cmd_help_ja_def
        cmd_cancel_ja_def cmd_yameru_def cmd_chuushi_def ascii_def)

lemma dispatch_title:
  "\<not> isGlobalCommand e (trim text) \<Longrightarrow> step st = WAITING_TITLE \<Longrightarrow>
     processTextMessage e text st = handleTitleInput e (trim text) st"
  by (simp add: processTextMessage_def Let_def)

lemma dispatch_content:
  "\<not> isGlobalCommand e (trim text) \<Longrightarrow> step st = WAITING_CONTENT \<Longrightarrow>
     processTextMessage e text st = handleContentInput e (trim text) st"
  by (simp add: processTextMessage_def Let_def)

lemma global_command_next_step:
  assumes "handleGlobalCommand e cmd st = Inr r" and "nextState r = Some ns"
  shows "step ns = IDLE \<or> step ns = WAITING_TITLE \<and> step st = IDLE"
  using assms not_valid_to_title[of "step st"]
  by (auto simp: handleGlobalCommand_def Let_def reply_only_def state_and_reply_def
        transitionTo_def updateStateStep_def
        split: if_splits)

lemma length_ge_1: "(Suc 0 \<le> length s) = (s \<noteq> [])"
  by (cases s) auto

text \<open>
  C10. The dispatcher trims every text before anything else looks at it: its answer to
  a text is its answer to the trimmed text. A text of white space only is rejected as
  empty in WAITING_TITLE and WAITING_CONTENT (the lowered empty string being empty, it
  is no command). For a text that is no command, the handlers receive the trimmed text
  and accept it exactly when its trimmed length is between 1 and 100 (title) or 1 and
  5000 (content). A title or content stored by the step has neither leading nor trailing
  white space.
\<close>

theorem text_is_trimmed_first:
  "processTextMessage e text st = processTextMessage e (trim text) st
   \<and> (toLowerCase e [] = [] \<and> (\<forall>c\<in>set text. isWhiteSpace c) \<longrightarrow>
        (step st = WAITING_TITLE \<longrightarrow>
           processTextMessage e text st
             = Inr \<lparr>nextState = None, responseMessage = Some ReplyTitleEmpty\<rparr>)
        \<and> (step st = WAITING_CONTENT \<longrightarrow>
           processTextMessage e text st
             = Inr \<lparr>nextState = None, responseMessage = Some ReplyContentEmpty\<rparr>))
   \<and> (\<not> isGlobalCommand e (trim text) \<longrightarrow>
        (step st = WAITING_TITLE \<longrightarrow>
           processTextMessage e text st = handleTitleInput e (trim text) st
           \<and> ((\<exists>r ns. processTextMessage e text st = Inr r \<and> nextState r = Some ns)
                 \<longleftrightarrow> 1 \<le> length (trim text) \<and> length (trim text) \<le> 100))
        \<and> (step st = WAITING_CONTENT \<longrightarrow>
           processTextMessage e text st = handleContentInput e (trim text) st
           \<and> ((\<exists>r ns. processTextMessage e text st = Inr r \<and> nextState r = Some ns)
                 \<longleftrightarrow> 1 \<le> length (trim text) \<and> length (trim text) \<le> 5000)))
   \<and> (processTextMessage e text st = Inr r \<and> nextState r = Some ns \<longrightarrow>
        (step st = WAITING_TITLE \<and> step ns = WAITING_CONTENT \<longrightarrow>
           title (data ns) = Some (trim text) \<and> trim text \<noteq> []
           \<and> \<not> isWhiteSpace (hd (trim text)) \<and> \<not> isWhiteSpace (last (trim text)))
        \<and> (step st = WAITING_CONTENT \<and> step ns = WAITING_IMAGE \<longrightarrow>
           content (data ns) = Some (trim text) \<and> trim text \<noteq> []
           \<and> \<not> isWhiteSpace (hd (trim text)) \<and> \<not> isWhiteSpace (last (trim text))))"
  (is "?A \<and> ?B \<and> ?C \<and> ?D")
proof (intro conjI)
  show ?A by (simp add: processTextMessage_def trim_idem)
  show ?B
    by (auto simp: trim_all_ws no_command_is_empty dispatch_title dispatch_content
          handleTitleInput_eq handleContentInput_eq)
  show ?C
    by (auto simp: dispatch_title dispatch_content handleTitleInput_eq handleContentInput_eq
          length_ge_1)
  show ?D
  proof (intro impI conjI; elim conjE)
    assume run: "processTextMessage e text st = Inr r" and ns: "nextState r = Some ns"
      and st: "step st = WAITING_TITLE" and to: "step ns = WAITING_CONTENT"
    have ng: "\<not> isGlobalCommand e (trim text)"
    proof
      assume "isGlobalCommand e (trim text)"
      with run have "handleGlobalCommand e (trim text) st = Inr r"
        by (simp add: processTextMessage_def Let_def)
      from global_command_next_step[OF this ns] st to show False by simp
    qed
    from run ns st have acc: "title (data ns) = Some (trim text) \<and> trim text \<noteq> []"
      by (auto simp: dispatch_title[OF ng st] handleTitleInput_eq split: if_splits)
    then show "title (data ns) = Some (trim text)" and "trim text \<noteq> []" by simp_all
    from acc show "\<not> isWhiteSpace (hd (trim text))" by (simp add: trim_hd)
    from acc show "\<not> isWhiteSpace (last (trim text))" by (simp add: trim_last)
  next
    assume run: "processTextMessage e text st = Inr r" and ns: "nextState r = Some ns"
      and st: "step st = WAITING_CONTENT" and to: "step ns = WAITING_IMAGE"
    have ng: "\<not> isGlobalCommand e (trim text)"
    proof
      assume "isGlobalCommand e (trim text)"
      with run have "handleGlobalCommand e (trim text) st = Inr r"
        by (simp add: processTextMessage_def Let_def)
      from global_command_next_step[OF this ns] st to show False by simp
    qed
    from run ns st have acc: "content (data ns) = Some (trim text) \<and> trim text \<noteq> []"
      by (auto simp: dispatch_content[OF ng st] handleContentInput_eq split: if_splits)
    then show "content (data ns) = Some (trim text)" and "trim text \<noteq> []" by simp_all
    from acc show "\<not> isWhiteSpace (hd (trim text))" by (simp add: trim_hd)
    from acc show "\<not> isWhiteSpace (last (trim text))" by (simp add: trim_last)
  qed
qed

lemma sample_not_command: "\<not> isGlobalCommand sample_env (ascii ''Hi'')"
  by (simp add: isGlobalCommand_def globalCommands_def sample_env_def ascii_lower_def
        cmd_start_def cmd_help_ja_def cmd_cancel_ja_def cmd_yameru_def cmd_chuushi_def ascii_def)

lemma sample_trim: "trim (ascii ''  Hi  '') = ascii ''Hi''"
  by (simp add: trim_def trimStart_def trimEnd_def isWhiteSpace_def ascii_def)

lemma sample_blank: "\<forall>c\<in>set (ascii ''   ''). isWhiteSpace c"
  by (simp add: isWhiteSpace_def ascii_def)

theorem text_is_trimmed_first_witness:
  "processTextMessage sample_env (ascii ''  Hi  '') (sample_state WAITING_TITLE)
     = Inr \<lparr>nextState = Some \<lparr>step = WAITING_CONTENT,
                                data = sample_post\<lparr>title := Some (ascii ''Hi'')\<rparr>,
                                createdAt = 1000, updatedAt = 2000\<rparr>,
             responseMessage = Some (ReplyTitleAccepted (ascii ''Hi''))\<rparr>
   \<and> processTextMessage sample_env (ascii ''   '') (sample_state WAITING_TITLE)
     = Inr \<lparr>nextState = None, responseMessage = Some ReplyTitleEmpty\<rparr>
   \<and> processTextMessage sample_env (ascii ''   '') (sample_state WAITING_CONTENT)
     = Inr \<lparr>nextState = None, responseMessage = Some ReplyContentEmpty\<rparr>
   \<and> trim (ascii ''  Hi  '') = ascii ''Hi''"
proof -
  have low: "toLowerCase sample_env [] = []"
    by (simp add: sample_env_def ascii_lower_def)
  have st: "step (sample_state WAITING_TITLE) = WAITING_TITLE"
    and sc: "step (sample_state WAITING_CONTENT) = WAITING_CONTENT"
    by (simp_all add: sample_state_def)
  have nc: "\<not> isGlobalCommand sample_env (trim (ascii ''  Hi  ''))"
    by (simp add: sample_trim sample_not_command)
  from text_is_trimmed_first[of sample_env "ascii ''  Hi  ''" "sample_state WAITING_TITLE"] nc st
  have "processTextMessage sample_env (ascii ''  Hi  '') (sample_state WAITING_TITLE)
          = handleTitleInput sample_env (trim (ascii ''  Hi  '')) (sample_state WAITING_TITLE)"
    by blast
  then have "processTextMessage sample_env (ascii ''  Hi  '') (sample_state WAITING_TITLE)
          = handleTitleInput sample_env (ascii ''Hi'') (sample_state WAITING_TITLE)"
    by (simp only: sample_trim)
  moreover have "handleTitleInput sample_env (ascii ''Hi'') (sample_state WAITING_TITLE)
     = Inr \<lparr>nextState = Some \<lparr>step = WAITING_CONTENT,
                                data = sample_post\<lparr>title := Some (ascii ''Hi'')\<rparr>,
                                createdAt = 1000, updatedAt = 2000\<rparr>,
             responseMessage = Some (ReplyTitleAccepted (ascii ''Hi''))\<rparr>"
    by (simp add: handleTitleInput_eq st) (simp add: sample_state_def sample_env_def ascii_def)
  moreover from text_is_trimmed_first[of sample_env "ascii ''   ''" "sample_state WAITING_TITLE"]
    low sample_blank st
  have "processTextMessage sample_env (ascii ''   '') (sample_state WAITING_TITLE)
     = Inr \<lparr>nextState = None, responseMessage = Some ReplyTitleEmpty\<rparr>"
    by blast
  moreover from text_is_trimmed_first[of sample_env "ascii ''   ''" "sample_state WAITING_CONTENT"]
    low sample_blank sc
  have "processTextMessage sample_env (ascii ''   '') (sample_state WAITING_CONTENT)
     = Inr \<lparr>nextState = None, responseMessage = Some ReplyContentEmpty\<rparr>"
    by blast
  ultimately show ?thesis by (simp add: sample_trim)
qed

section \<open>Properties of the tag selection\<close>































section \<open>Properties of the image pipeline\<close>

lemma validateImage_error_class:
  "validateImage e buf = Inl err \<Longrightarrow> err_class err = ValidationError"
  by (auto simp: validateImage_def validation_error_def Let_def split: sum.splits if_splits)

lemma validateImage_too_large:
  "length buf > maxFileSize \<Longrightarrow> \<exists>err. validateImage e buf = Inl err"
  by (auto simp: validateImage_def Let_def split: sum.splits)

lemma processImage_validation_error:
  "validateImage e buf = Inl err \<Longrightarrow> processImage e buf = Inl err"
  by (simp add: processImage_def processImage_catch_def validateImage_error_class)

text \<open>
  C5, as amended. A buffer of more than 10 MiB (10 * 1024 * 1024 bytes) is rejected
  with a ValidationError by \<open>validateImage\<close>, and \<open>processImage\<close> throws the same
  error, whatever the image library reads from the bytes or throws.
\<close>

theorem oversize_image_rejected:
  assumes "length buf > 10 * 1024 * 1024"
  shows "\<exists>err. validateImage e buf = Inl err \<and> processImage e buf = Inl err
               \<and> err_class err = ValidationError"
proof -
  from assms obtain err where "validateImage e buf = Inl err"
    using validateImage_too_large[of buf e] by (auto simp: maxFileSize_def)
  then show ?thesis
    using processImage_validation_error validateImage_error_class by blast
qed

lemma decimal_sample: "decimal 10485761 = ascii ''10485761''"
  by (simp add: decimal.simps ascii_def)

lemma sample_formats: "ascii ''jpeg'' \<in> set supportedFormats \<and> ascii ''png'' \<in> set supportedFormats
   \<and> ascii ''tiff'' \<notin> set supportedFormats"
  by (simp add: supportedFormats_def ascii_def)

lemma sample_lower_formats:
  "ascii_lower (ascii ''jpeg'') = ascii ''jpeg'' \<and> ascii_lower (ascii ''png'') = ascii ''png''
   \<and> ascii_lower (ascii ''tiff'') = ascii ''tiff'' \<and> ascii_upper (ascii ''tiff'') = ascii ''TIFF''"
  by (simp add: ascii_lower_def ascii_upper_def ascii_def)

lemma sample_validate_jpeg:
  "length rest < 10 * 1024 * 1024 \<Longrightarrow>
   validateImage sample_env (1 # rest)
     = Inr \<lparr>iv_isValid = True, iv_mimeType = ascii ''image/jpeg'', iv_width = 100,
             iv_height = 100, iv_size = Suc (length rest), iv_format = ascii ''jpeg''\<rparr>"
  using sample_formats sample_lower_formats
  by (simp add: validateImage_def sample_env_def image_meta_def maxFileSize_def Let_def)
     (simp add: ascii_def)

text \<open>
  C5, as stated, fails at the boundary: the size test is \<open>size > maxFileSize\<close>, so a
  buffer of exactly 10 MiB that the library reads as a supported image is accepted.
\<close>

theorem exactly_ten_mebibytes_accepted:
  "length (1 # replicate 10485759 (0::8 word)) = 10 * 1024 * 1024
   \<and> validateImage sample_env (1 # replicate 10485759 0)
     = Inr \<lparr>iv_isValid = True, iv_mimeType = ascii ''image/jpeg'', iv_width = 100,
             iv_height = 100, iv_size = 10485760, iv_format = ascii ''jpeg''\<rparr>"
  using sample_validate_jpeg[of "replicate 10485759 0"] by simp

theorem oversize_image_rejected_witness:
  "length (1 # replicate 10485760 (0::8 word)) > 10 * 1024 * 1024
   \<and> validateImage sample_env (1 # replicate 10485760 0)
       = Inl (validation_error (ascii ''Image file too large: 10485761 bytes'') (ImageTooLarge 10))
   \<and> processImage sample_env (1 # replicate 10485760 0)
       = Inl (validation_error (ascii ''Image file too large: 10485761 bytes'') (ImageTooLarge 10))"
proof -
  have big: "length (1 # replicate 10485760 (0::8 word)) > 10 * 1024 * 1024" by simp
  have v: "validateImage sample_env (1 # replicate 10485760 0)
       = Inl (validation_error (ascii ''Image file too large: 10485761 bytes'') (ImageTooLarge 10))"
    using sample_formats sample_lower_formats decimal_sample
    by (simp add: validateImage_def sample_env_def image_meta_def maxFileSize_def Let_def)
       (simp add: ascii_def)
  from oversize_image_rejected[OF big, of sample_env] v big show ?thesis by auto
qed

lemma resize_noop:
  "iv_width v \<le> 2048 \<and> iv_height v \<le> 2048 \<Longrightarrow> resizeImageIfNeeded e buf v = Inr buf"
  by (simp add: resizeImageIfNeeded_def maxWidth_def maxHeight_def)

lemma resize_request_eq:
  "resize_request = \<lparr>resize_width = 2048, resize_height = 2048, resize_fit = FitInside,
                      resize_withoutEnlargement = True, jpeg_quality = 85\<rparr>"
  by (simp add: resize_request_def maxWidth_def maxHeight_def)

lemma resize_library:
  "\<not> (iv_width v \<le> 2048 \<and> iv_height v \<le> 2048) \<Longrightarrow>
   resizeImageIfNeeded e buf v =
     (case sharp_toBuffer e resize_request buf of
        Inl err \<Rightarrow> Inl (processing_error (ascii ''Image resize failed: '' @ message err) ImageResizeFailed)
      | Inr out \<Rightarrow> Inr out)"
  by (auto simp: resizeImageIfNeeded_def maxWidth_def maxHeight_def)

lemma resize_error_class:
  "resizeImageIfNeeded e buf v = Inl err \<Longrightarrow> err_class err = ProcessingError"
  by (auto simp: resizeImageIfNeeded_def processing_error_def split: if_splits sum.splits)

lemma processImage_resize_error:
  "validateImage e buf = Inr v \<Longrightarrow> resizeImageIfNeeded e buf v = Inl err \<Longrightarrow>
     processImage e buf = Inl err"
  by (simp add: processImage_def processImage_catch_def resize_error_class)

lemma validateImage_metadata:
  assumes "validateImage e buf = Inr v"
  shows "\<exists>m. sharp_metadata_of e buf = Inr m \<and> md_width m = Some (iv_width v)
             \<and> md_height m = Some (iv_height v)"
  using assms
  by (auto simp: validateImage_def Let_def split: sum.splits if_splits)

lemma aspect_kept_refl: "aspect_kept w h w h"
  by (simp add: aspect_kept_def mult.commute)

lemma resize_output_dims:
  assumes lib: "library_fits_inside e"
    and val: "validateImage e buf = Inr v"
    and res: "resizeImageIfNeeded e buf v = Inr out"
  shows "\<exists>m w' h'. sharp_metadata_of e out = Inr m \<and> md_width m = Some w' \<and> md_height m = Some h'
            \<and> w' \<le> 2048 \<and> h' \<le> 2048 \<and> w' \<le> iv_width v \<and> h' \<le> iv_height v
            \<and> aspect_kept (iv_width v) (iv_height v) w' h'
            \<and> (\<not> (iv_width v \<le> 2048 \<and> iv_height v \<le> 2048) \<longrightarrow> md_format m = Some (ascii ''jpeg''))"
proof (cases "iv_width v \<le> 2048 \<and> iv_height v \<le> 2048")
  case True
  with res have "out = buf" by (simp add: resize_noop)
  with validateImage_metadata[OF val] True show ?thesis
    by (auto simp: aspect_kept_refl)
next
  case False
  from validateImage_metadata[OF val] obtain m_in where
    m_in: "sharp_metadata_of e buf = Inr m_in" "md_width m_in = Some (iv_width v)"
      "md_height m_in = Some (iv_height v)" by blast
  from res False have run: "sharp_toBuffer e resize_request buf = Inr out"
    by (auto simp: resize_library split: sum.splits)
  have "resize_fit resize_request = FitInside \<and> resize_withoutEnlargement resize_request"
    by (simp add: resize_request_def)
  with lib m_in(1) run obtain m_out where
    m_out: "sharp_metadata_of e out = Inr m_out" "fits_inside resize_request m_in m_out"
    unfolding library_fits_inside_def by blast
  from m_out(2) m_in(2,3) obtain w' h' where
    "md_width m_out = Some w'" "md_height m_out = Some h'"
    "w' \<le> 2048" "h' \<le> 2048" "w' \<le> iv_width v" "h' \<le> iv_height v"
    "aspect_kept (iv_width v) (iv_height v) w' h'" "md_format m_out = Some (ascii ''jpeg'')"
    by (auto simp: fits_inside_def resize_request_eq split: option.splits)
  with m_out(1) show ?thesis by blast
qed

text \<open>
  C9. \<open>resizeImageIfNeeded\<close> returns the buffer it was given when the validated width
  and height are both at most 2048. Otherwise it returns what the image library makes of
  the buffer under one fixed pipeline, whatever the format of the input: resize to fit
  inside 2048 x 2048 without enlargement, then encode as JPEG of quality 85. A failure
  of the stage is a ProcessingError, which \<open>processImage\<close> throws unchanged. With a
  library that honours fit-inside-without-enlargement, the output of the stage for a
  validated image has both dimensions at most 2048 and at most those of the input, with
  the aspect ratio kept, and is a JPEG whenever the library was used.
\<close>

theorem resize_if_needed:
  "(iv_width v \<le> 2048 \<and> iv_height v \<le> 2048 \<longrightarrow> resizeImageIfNeeded e buf v = Inr buf)
   \<and> (\<not> (iv_width v \<le> 2048 \<and> iv_height v \<le> 2048) \<longrightarrow>
        resizeImageIfNeeded e buf v =
          (case sharp_toBuffer e
                  \<lparr>resize_width = 2048, resize_height = 2048, resize_fit = FitInside,
                   resize_withoutEnlargement = True, jpeg_quality = 85\<rparr> buf of
             Inl err \<Rightarrow>
               Inl (processing_error (ascii ''Image resize failed: '' @ message err)
                      ImageResizeFailed)
           | Inr out \<Rightarrow> Inr out))
   \<and> (\<forall>err. resizeImageIfNeeded e buf v = Inl err \<longrightarrow>
          err_class err = ProcessingError
          \<and> (validateImage e buf = Inr v \<longrightarrow> processImage e buf = Inl err))
   \<and> (\<forall>out. library_fits_inside e \<and> validateImage e buf = Inr v
            \<and> resizeImageIfNeeded e buf v = Inr out \<longrightarrow>
          (\<exists>m w' h'. sharp_metadata_of e out = Inr m
             \<and> md_width m = Some w' \<and> md_height m = Some h'
             \<and> w' \<le> 2048 \<and> h' \<le> 2048 \<and> w' \<le> iv_width v \<and> h' \<le> iv_height v
             \<and> aspect_kept (iv_width v) (iv_height v) w' h'
             \<and> (\<not> (iv_width v \<le> 2048 \<and> iv_height v \<le> 2048) \<longrightarrow>
                  md_format m = Some (ascii ''jpeg''))))"
  (is "?A \<and> ?B \<and> ?C \<and> ?D")
proof (intro conjI)
  show ?A by (simp add: resize_noop)
  show ?B using resize_library[of v e buf] by (simp add: resize_request_eq)
  show ?C using resize_error_class processImage_resize_error by blast
  show ?D using resize_output_dims by blast
qed

lemma sample_library_fits: "library_fits_inside sample_env"
  unfolding library_fits_inside_def
proof (intro allI impI, elim conjE)
  fix p buf out m_in
  assume fit: "resize_fit p = FitInside" and "resize_withoutEnlargement p"
    and m: "sharp_metadata_of sample_env buf = Inr m_in"
    and r: "sharp_toBuffer sample_env p buf = Inr out"
  from r have p: "p = resize_request" and b: "take 1 buf = [2]" and out: "out = [3, 0, 0]"
    by (auto simp: sample_env_def sample_toBuffer_def split: if_splits)
  from b obtain rest where buf: "buf = 2 # rest" by (cases buf) auto
  with m have m_in: "m_in = image_meta (ascii ''png'') 3000 2500"
    by (simp add: sample_env_def)
  have "sharp_metadata_of sample_env out = Inr (image_meta (ascii ''jpeg'') 2048 1707)"
    by (simp add: out sample_env_def)
  moreover have "fits_inside p m_in (image_meta (ascii ''jpeg'') 2048 1707)"
    by (simp add: p m_in fits_inside_def image_meta_def resize_request_eq aspect_kept_def)
  ultimately show "\<exists>m_out. sharp_metadata_of sample_env out = Inr m_out \<and> fits_inside p m_in m_out"
    by blast
qed

definition large_validation :: ImageValidationResult where
  "large_validation =
     \<lparr>iv_isValid = True, iv_mimeType = ascii ''image/png'', iv_width = 3000,
      iv_height = 2500, iv_size = 5, iv_format = ascii ''png''\<rparr>"

definition small_validation :: ImageValidationResult where
  "small_validation =
     \<lparr>iv_isValid = True, iv_mimeType = ascii ''image/jpeg'', iv_width = 100,
      iv_height = 100, iv_size = 4, iv_format = ascii ''jpeg''\<rparr>"

lemma sample_validate_large: "validateImage sample_env [2, 0, 0, 0, 0] = Inr large_validation"
  using sample_formats sample_lower_formats
  by (simp add: validateImage_def sample_env_def image_meta_def maxFileSize_def Let_def
        large_validation_def)
     (simp add: ascii_def)

lemma sample_validate_small: "validateImage sample_env [1, 0, 0, 0] = Inr small_validation"
  using sample_formats sample_lower_formats
  by (simp add: validateImage_def sample_env_def image_meta_def maxFileSize_def Let_def
        small_validation_def)
     (simp add: ascii_def)

theorem resize_if_needed_witness:
  "validateImage sample_env [1, 0, 0, 0] = Inr small_validation
   \<and> resizeImageIfNeeded sample_env [1, 0, 0, 0] small_validation = Inr [1, 0, 0, 0]
   \<and> validateImage sample_env [2, 0, 0, 0, 0] = Inr large_validation
   \<and> resizeImageIfNeeded sample_env [2, 0, 0, 0, 0] large_validation = Inr [3, 0, 0]
   \<and> sharp_metadata_of sample_env [3, 0, 0] = Inr (image_meta (ascii ''jpeg'') 2048 1707)
   \<and> resizeImageIfNeeded sample_env [9] large_validation
       = Inl (processing_error
                (ascii ''Image resize failed: Input buffer contains unsupported image format'')
                ImageResizeFailed)
   \<and> library_fits_inside sample_env"
proof -
  have small: "iv_width small_validation \<le> 2048 \<and> iv_height small_validation \<le> 2048"
    by (simp add: small_validation_def)
  have large: "\<not> (iv_width large_validation \<le> 2048 \<and> iv_height large_validation \<le> 2048)"
    by (simp add: large_validation_def)
  have run: "sharp_toBuffer sample_env
               \<lparr>resize_width = 2048, resize_height = 2048, resize_fit = FitInside,
                resize_withoutEnlargement = True, jpeg_quality = 85\<rparr> [2, 0, 0, 0, 0]
             = Inr [3, 0, 0]"
    by (simp add: sample_env_def sample_toBuffer_def resize_request_eq)
  have fail: "sharp_toBuffer sample_env
               \<lparr>resize_width = 2048, resize_height = 2048, resize_fit = FitInside,
                resize_withoutEnlargement = True, jpeg_quality = 85\<rparr> [9]
             = Inl (plain_error (ascii ''Input buffer contains unsupported image format''))"
    by (simp add: sample_env_def sample_toBuffer_def resize_request_eq)
  have meta: "sharp_metadata_of sample_env [3, 0, 0] = Inr (image_meta (ascii ''jpeg'') 2048 1707)"
    by (simp add: sample_env_def)
  from resize_if_needed[of small_validation sample_env "[1, 0, 0, 0]"] small
  have a: "resizeImageIfNeeded sample_env [1, 0, 0, 0] small_validation = Inr [1, 0, 0, 0]"
    by blast
  from resize_if_needed[of large_validation sample_env "[2, 0, 0, 0, 0]"] large
  have b: "resizeImageIfNeeded sample_env [2, 0, 0, 0, 0] large_validation = Inr [3, 0, 0]"
    by (simp add: run)
  from resize_if_needed[of large_validation sample_env "[9]"] large
  have c: "resizeImageIfNeeded sample_env [9] large_validation
       = Inl (processing_error
                (ascii ''Image resize failed: Input buffer contains unsupported image format'')
                ImageResizeFailed)"
    by (simp add: fail plain_error_def ascii_def)
  from a b c meta sample_validate_small sample_validate_large sample_library_fits
  show ?thesis by simp
qed


lemma includes_ascii:
  "\<forall>c\<in>set s. c < 0x80 \<Longrightarrow> p \<noteq> [] \<Longrightarrow> \<not> hd p < 0x80 \<Longrightarrow> \<not> includes_str s p"
proof (induction s)
  case Nil
  then show ?case by simp
next
  case (Cons c s)
  have "\<not> startsWith (c # s) p"
  proof
    assume "startsWith (c # s) p"
    then have "take (length p) (c # s) = p" by (simp add: startsWith_def)
    with Cons.prems(2) have "hd p = c" by (cases p) auto
    with Cons.prems show False by simp
  qed
  with Cons show ?case by simp
qed

lemma ascii_message_generic:
  "\<forall>c\<in>set (message err). c < 0x80 \<Longrightarrow> image_error_reply err = reply_only ReplyImageFailed"
  by (simp add: image_error_reply_def includes_ascii phrase_unsupported_def
        phrase_too_large_def phrase_validation_failed_def)

text \<open>
  C4. In step WAITING_IMAGE, when the pipeline throws on the downloaded bytes, the
  dispatcher answers with a reply and no new state. The claim is that the reply carries
  the pipeline's user-facing message when the failure is a validation failure. The code
  looks for the Japanese phrases of the user-facing messages in the error's
  \<open>message\<close>, not in its \<open>userMessage\<close>: an error whose \<open>message\<close> is ASCII, as
  the pipeline's validation errors are, gets the generic reply. The witness is an
  unsupported format.
\<close>

theorem image_failure_reply:
  "step st = WAITING_IMAGE \<and> downloadImage e imageId = Inr buf \<and> processImage e buf = Inl err
   \<longrightarrow> processImageMessage e imageId st = Inr (image_error_reply err)
       \<and> nextState (image_error_reply err) = None
       \<and> ((\<forall>c\<in>set (message err). c < 0x80)
              \<longrightarrow> responseMessage (image_error_reply err) = Some ReplyImageFailed)"
  by (auto simp: processImageMessage_def ascii_message_generic)
     (simp_all add: image_error_reply_def reply_only_def)

lemma sample_tiff_rejected:
  "processImage sample_env [4, 0, 0, 0]
     = Inl (validation_error (ascii ''Unsupported image format: tiff'')
              (ImageFormatUnsupported (ascii ''TIFF'')))"
  using sample_formats sample_lower_formats
  by (simp add: processImage_def validateImage_def sample_env_def image_meta_def Let_def
        processImage_catch_def validation_error_def)
     (simp add: ascii_def)

theorem image_failure_reply_witness:
  "processImage sample_env [4, 0, 0, 0]
     = Inl (validation_error (ascii ''Unsupported image format: tiff'')
              (ImageFormatUnsupported (ascii ''TIFF'')))
   \<and> processMessage sample_env (image_message (ascii ''tiff'')) (sample_state WAITING_IMAGE)
     = Inr \<lparr>nextState = None, responseMessage = Some ReplyImageFailed\<rparr>"
proof -
  have st: "step (sample_state WAITING_IMAGE) = WAITING_IMAGE" by (simp add: sample_state_def)
  have dl: "downloadImage sample_env (ascii ''tiff'') = Inr [4, 0, 0, 0]"
    by (simp add: sample_env_def sample_download_def ascii_def)
  have asc: "\<forall>c\<in>set (message (validation_error (ascii ''Unsupported image format: tiff'')
              (ImageFormatUnsupported (ascii ''TIFF'')))). c < 0x80"
    by (simp add: validation_error_def ascii_def)
  from image_failure_reply[of "sample_state WAITING_IMAGE" sample_env "ascii ''tiff''"
      "[4, 0, 0, 0]" "validation_error (ascii ''Unsupported image format: tiff'')
              (ImageFormatUnsupported (ascii ''TIFF''))"] st dl sample_tiff_rejected asc
  have a: "processImageMessage sample_env (ascii ''tiff'') (sample_state WAITING_IMAGE)
         = Inr (image_error_reply (validation_error (ascii ''Unsupported image format: tiff'')
              (ImageFormatUnsupported (ascii ''TIFF''))))"
    and b: "nextState (image_error_reply (validation_error (ascii ''Unsupported image format: tiff'')
              (ImageFormatUnsupported (ascii ''TIFF'')))) = None"
    and c: "responseMessage (image_error_reply (validation_error (ascii ''Unsupported image format: tiff'')
              (ImageFormatUnsupported (ascii ''TIFF'')))) = Some ReplyImageFailed"
    by blast+
  have "processMessage sample_env (image_message (ascii ''tiff'')) (sample_state WAITING_IMAGE)
       = processImageMessage sample_env (ascii ''tiff'') (sample_state WAITING_IMAGE)"
    by (simp add: processMessage_def image_message_def ascii_def)
  with a b c sample_tiff_rejected show ?thesis
    by (cases "image_error_reply (validation_error (ascii ''Unsupported image format: tiff'')
              (ImageFormatUnsupported (ascii ''TIFF'')))") simp
qed

section \<open>Properties of the orchestrator\<close>

lemma getCurrentState_cases:
  "(\<exists>err err'. store_get c u = Inl err \<and> getCurrentState c e u = (Inl err', [StoreGet u]))
   \<or> (\<exists>s. store_get c u = Inr (Some s) \<and> getCurrentState c e u = (Inr s, [StoreGet u]))
   \<or> (\<exists>r. store_get c u = Inr None
          \<and> getCurrentState c e u = (r, [StoreGet u, StoreSet u (createIdleState (now e))]))"
  by (auto simp: getCurrentState_def Let_def split: sum.splits option.splits)

lemma updateState_events: "updateState c u s = (out, ev) \<Longrightarrow> ev = [StoreSet u s]"
  by (auto simp: updateState_def split: option.splits)

text \<open>The calls made after the state was obtained.\<close>

lemma manager_shape:
  assumes "getCurrentState c e u = (r, ev1)"
  shows "\<exists>rest. snd (manager_processMessage c e u msg tok) = ev1 @ rest
           \<and> reads rest = 0
           \<and> (case r of Inl err \<Rightarrow> writes rest = 0
               | Inr s \<Rightarrow> (\<exists>rest'. rest = Dispatched # rest' \<and> writes rest' \<le> 1))"
proof (cases r)
  case (Inl err)
  with assms show ?thesis
    by (simp add: manager_processMessage_def manager_catch_def reads_def writes_def)
next
  case (Inr s)
  obtain o2 ev2 where u2: "(case nextState (projr (processMessage e msg s)) of
              None \<Rightarrow> (None, [])
            | Some st \<Rightarrow> updateState c u st) = (o2, ev2)" by fastforce
  have ev2: "ev2 = [] \<or> (\<exists>st. ev2 = [StoreSet u st])"
    using u2 by (auto split: option.splits dest: updateState_events)
  then have w2: "writes ev2 \<le> 1" and r2: "reads ev2 = 0"
    by (auto simp: writes_def reads_def)
  show ?thesis
  proof (cases "processMessage e msg s")
    case (Inl err)
    with assms Inr show ?thesis
      by (simp add: manager_processMessage_def manager_catch_def reads_def writes_def)
  next
    case res: (Inr result)
    with u2 have u2': "(case nextState result of None \<Rightarrow> (None, [])
            | Some st \<Rightarrow> updateState c u st) = (o2, ev2)" by simp
    show ?thesis
      using assms Inr res u2' w2 r2
      by (auto simp: manager_processMessage_def manager_catch_def reads_def writes_def
            split: option.splits)
  qed
qed

lemma writes_before_dispatched: "writes rest = 0 \<Longrightarrow> writes (before_dispatched rest) = 0"
  by (auto simp: writes_def before_dispatched_def filter_empty_conv dest: set_takeWhileD)

text \<open>
  C8, as amended. Within one invocation of the orchestrator's \<open>processMessage\<close> the
  session store is read exactly once, and the read is the first call. When a state is
  found, nothing is written before the dispatcher has finished and at most one write
  follows. When no state is found, a fresh idle state is written straight after the
  read, before the message is processed; at most one more write follows, and it comes
  after the dispatcher has finished: an invocation writes at most twice. When the read fails nothing is written.
\<close>

theorem store_access_per_invocation:
  "reads (snd (manager_processMessage c e u msg tok)) = 1
   \<and> take 1 (snd (manager_processMessage c e u msg tok)) = [StoreGet u]
   \<and> writes (snd (manager_processMessage c e u msg tok)) \<le> 2
   \<and> (\<forall>s. store_get c u = Inr (Some s) \<longrightarrow>
          writes (before_dispatched (snd (manager_processMessage c e u msg tok))) = 0
          \<and> writes (snd (manager_processMessage c e u msg tok)) \<le> 1)
   \<and> (store_get c u = Inr None \<longrightarrow>
          take 2 (snd (manager_processMessage c e u msg tok))
            = [StoreGet u, StoreSet u (createIdleState (now e))]
          \<and> writes (drop 2 (snd (manager_processMessage c e u msg tok))) \<le> 1
          \<and> writes (before_dispatched (drop 2 (snd (manager_processMessage c e u msg tok)))) = 0)
   \<and> (\<forall>err. store_get c u = Inl err \<longrightarrow>
          writes (snd (manager_processMessage c e u msg tok)) = 0)"
proof -
  obtain r ev1 where g: "getCurrentState c e u = (r, ev1)" by fastforce
  from manager_shape[OF g, of msg tok] obtain rest where
    evs: "snd (manager_processMessage c e u msg tok) = ev1 @ rest" and rd: "reads rest = 0"
    and sh: "case r of Inl err \<Rightarrow> writes rest = 0
             | Inr s \<Rightarrow> (\<exists>rest'. rest = Dispatched # rest' \<and> writes rest' \<le> 1)"
    by blast
  from sh have w1: "writes rest \<le> 1" by (auto simp: writes_def split: sum.splits)
  from getCurrentState_cases[of c u e] show ?thesis
  proof (elim disjE exE conjE)
    fix err err'
    assume a: "store_get c u = Inl err" "getCurrentState c e u = (Inl err', [StoreGet u])"
    with g sh evs rd show ?thesis by (auto simp: reads_def writes_def)
  next
    fix s
    assume a: "store_get c u = Inr (Some s)" "getCurrentState c e u = (Inr s, [StoreGet u])"
    with g sh evs rd w1 show ?thesis
      by (auto simp: reads_def writes_def before_dispatched_def)
  next
    fix r'
    assume a: "store_get c u = Inr None"
      "getCurrentState c e u = (r', [StoreGet u, StoreSet u (createIdleState (now e))])"
    with g evs have d2: "drop 2 (snd (manager_processMessage c e u msg tok)) = rest" by auto
    have "writes (before_dispatched rest) = 0"
    proof (cases r)
      case (Inl err)
      with sh have "writes rest = 0" by simp
      then show ?thesis by (rule writes_before_dispatched)
    next
      case (Inr s)
      with sh obtain rest' where "rest = Dispatched # rest'" by auto
      then show ?thesis by (simp add: before_dispatched_def writes_def)
    qed
    with a g sh evs rd w1 d2 show ?thesis by (auto simp: reads_def writes_def)
  qed
qed

lemma sample_start_from_idle:
  "processMessage sample_env (text_message cmd_start) (createIdleState 2000)
     = Inr \<lparr>nextState = Some ((createIdleState 2000)\<lparr>step := WAITING_TITLE\<rparr>),
             responseMessage = Some ReplyStartPost\<rparr>"
  by (simp add: processMessage_def text_message_def processTextMessage_def trim_cmd_start
        isGlobalCommand_def sample_lower_start globalCommands_def handleGlobalCommand_def
        transitionTo_def isValidTransition_def updateStateStep_def merge_no_updates
        state_and_reply_def createIdleState_def)
     (simp add: sample_env_def)

lemma sample_start_from_title:
  "processMessage sample_env (text_message (ascii ''Hi'')) (sample_state WAITING_TITLE)
     = Inr \<lparr>nextState = Some \<lparr>step = WAITING_CONTENT,
                                data = sample_post\<lparr>title := Some (ascii ''Hi'')\<rparr>,
                                createdAt = 1000, updatedAt = 2000\<rparr>,
             responseMessage = Some (ReplyTitleAccepted (ascii ''Hi''))\<rparr>"
proof -
  have t: "trim (ascii ''Hi'') = ascii ''Hi''"
    by (simp add: trim_def trimStart_def trimEnd_def isWhiteSpace_def ascii_def)
  have st: "step (sample_state WAITING_TITLE) = WAITING_TITLE" by (simp add: sample_state_def)
  have "processMessage sample_env (text_message (ascii ''Hi'')) (sample_state WAITING_TITLE)
          = handleTitleInput sample_env (ascii ''Hi'') (sample_state WAITING_TITLE)"
    using dispatch_title[of sample_env "ascii ''Hi''" "sample_state WAITING_TITLE"]
      sample_not_command st
    by (simp add: processMessage_def text_message_def t)
  also have "\<dots> = Inr \<lparr>nextState = Some \<lparr>step = WAITING_CONTENT,
                                data = sample_post\<lparr>title := Some (ascii ''Hi'')\<rparr>,
                                createdAt = 1000, updatedAt = 2000\<rparr>,
             responseMessage = Some (ReplyTitleAccepted (ascii ''Hi''))\<rparr>"
    by (simp add: handleTitleInput_eq st) (simp add: sample_state_def sample_env_def ascii_def)
  finally show ?thesis .
qed

text \<open>
  C8, as stated, fails on first contact: for a user without a stored state
  \<open>getCurrentState\<close> writes the fresh idle state before the message is processed, and
  the start command then makes the invocation write a second time.
\<close>

theorem first_contact_writes_twice:
  "manager_processMessage empty_store sample_env (ascii ''user123'') (text_message cmd_start)
      (ascii ''reply123'')
     = (None,
        [StoreGet (ascii ''user123''),
         StoreSet (ascii ''user123'') (createIdleState 2000),
         Dispatched,
         StoreSet (ascii ''user123'') ((createIdleState 2000)\<lparr>step := WAITING_TITLE\<rparr>),
         Replied (ascii ''reply123'') ReplyStartPost])
   \<and> writes (snd (manager_processMessage empty_store sample_env (ascii ''user123'')
                     (text_message cmd_start) (ascii ''reply123''))) = 2
   \<and> writes (before_dispatched (snd (manager_processMessage empty_store sample_env
                     (ascii ''user123'') (text_message cmd_start) (ascii ''reply123'')))) = 1"
proof -
  have now: "now sample_env = 2000" by (simp add: sample_env_def)
  have "manager_processMessage empty_store sample_env (ascii ''user123'') (text_message cmd_start)
      (ascii ''reply123'')
     = (None,
        [StoreGet (ascii ''user123''),
         StoreSet (ascii ''user123'') (createIdleState 2000),
         Dispatched,
         StoreSet (ascii ''user123'') ((createIdleState 2000)\<lparr>step := WAITING_TITLE\<rparr>),
         Replied (ascii ''reply123'') ReplyStartPost])"
    by (simp add: manager_processMessage_def getCurrentState_def empty_store_def now
          sample_start_from_idle updateState_def Let_def)
  then show ?thesis by (simp add: writes_def before_dispatched_def)
qed

theorem store_access_per_invocation_witness:
  "store_get (store_holding (sample_state WAITING_TITLE)) (ascii ''user123'')
      = Inr (Some (sample_state WAITING_TITLE))
   \<and> snd (manager_processMessage (store_holding (sample_state WAITING_TITLE)) sample_env
            (ascii ''user123'') (text_message (ascii ''Hi'')) (ascii ''reply123''))
     = [StoreGet (ascii ''user123''),
        Dispatched,
        StoreSet (ascii ''user123'')
          \<lparr>step = WAITING_CONTENT, data = sample_post\<lparr>title := Some (ascii ''Hi'')\<rparr>,
           createdAt = 1000, updatedAt = 2000\<rparr>,
        Replied (ascii ''reply123'') (ReplyTitleAccepted (ascii ''Hi''))]
   \<and> reads (snd (manager_processMessage (store_holding (sample_state WAITING_TITLE)) sample_env
            (ascii ''user123'') (text_message (ascii ''Hi'')) (ascii ''reply123''))) = 1
   \<and> writes (snd (manager_processMessage (store_holding (sample_state WAITING_TITLE)) sample_env
            (ascii ''user123'') (text_message (ascii ''Hi'')) (ascii ''reply123''))) \<le> 1
   \<and> store_get empty_store (ascii ''user123'') = Inr None
   \<and> writes (drop 2 (snd (manager_processMessage empty_store sample_env (ascii ''user123'')
                     (text_message cmd_start) (ascii ''reply123'')))) \<le> 1
   \<and> writes (before_dispatched (drop 2 (snd (manager_processMessage empty_store sample_env
                     (ascii ''user123'') (text_message cmd_start) (ascii ''reply123''))))) = 0"
proof -
  have g: "store_get (store_holding (sample_state WAITING_TITLE)) (ascii ''user123'')
      = Inr (Some (sample_state WAITING_TITLE))"
    by (simp add: store_holding_def)
  have g0: "store_get empty_store (ascii ''user123'') = Inr None"
    by (simp add: empty_store_def)
  have tr: "snd (manager_processMessage (store_holding (sample_state WAITING_TITLE)) sample_env
            (ascii ''user123'') (text_message (ascii ''Hi'')) (ascii ''reply123''))
     = [StoreGet (ascii ''user123''),
        Dispatched,
        StoreSet (ascii ''user123'')
          \<lparr>step = WAITING_CONTENT, data = sample_post\<lparr>title := Some (ascii ''Hi'')\<rparr>,
           createdAt = 1000, updatedAt = 2000\<rparr>,
        Replied (ascii ''reply123'') (ReplyTitleAccepted (ascii ''Hi''))]"
    by (simp add: manager_processMessage_def getCurrentState_def store_holding_def
          sample_start_from_title updateState_def)
  from store_access_per_invocation[of "store_holding (sample_state WAITING_TITLE)" sample_env
      "ascii ''user123''" "text_message (ascii ''Hi'')" "ascii ''reply123''"] g
  have a: "reads (snd (manager_processMessage (store_holding (sample_state WAITING_TITLE)) sample_env
            (ascii ''user123'') (text_message (ascii ''Hi'')) (ascii ''reply123''))) = 1"
    and b: "writes (snd (manager_processMessage (store_holding (sample_state WAITING_TITLE)) sample_env
            (ascii ''user123'') (text_message (ascii ''Hi'')) (ascii ''reply123''))) \<le> 1"
    by blast+
  from store_access_per_invocation[of empty_store sample_env
      "ascii ''user123''" "text_message cmd_start" "ascii ''reply123''"] g0
  have c: "writes (drop 2 (snd (manager_processMessage empty_store sample_env (ascii ''user123'')
                     (text_message cmd_start) (ascii ''reply123'')))) \<le> 1"
    and d: "writes (before_dispatched (drop 2 (snd (manager_processMessage empty_store sample_env
                     (ascii ''user123'') (text_message cmd_start) (ascii ''reply123''))))) = 0"
    by blast+
  from g g0 tr a b c d show ?thesis by blast
qed

section \<open>The errors the dispatcher lets through\<close>

lemma valid_to_idle: "s \<noteq> IDLE \<Longrightarrow> isValidTransition s IDLE"
  by (cases s) (simp_all add: isValidTransition_def)

lemma handleGlobalCommand_throws:
  "handleGlobalCommand e cmd st = Inl err \<longleftrightarrow>
     toLowerCase e cmd = cmd_start \<and> step st \<noteq> IDLE
     \<and> err = invalid_transition (step st) WAITING_TITLE"
  using not_valid_to_title[of "step st"] valid_to_idle[of "step st"]
  by (auto simp: handleGlobalCommand_def Let_def transitionTo_def canCancel_def isValidTransition_def)

lemma handleTagSelection_returns: "handleTagSelection e t st \<noteq> Inl err"
  by (simp add: handleTagSelection_def Let_def split: sum.splits)

lemma handleConfirmation_returns:
  "step st = CONFIRMING \<Longrightarrow> handleConfirmation e t st \<noteq> Inl err"
  by (simp add: handleConfirmation_def Let_def transitionTo_def isValidTransition_def)

lemma processImageMessage_returns: "processImageMessage e i st \<noteq> Inl err"
  by (simp add: processImageMessage_def split: sum.splits)

lemma start_is_command: "toLowerCase e t = cmd_start \<Longrightarrow> isGlobalCommand e t"
  by (simp add: isGlobalCommand_def globalCommands_def)

lemma processTextMessage_throws:
  "processTextMessage e text st = Inl err \<longleftrightarrow>
     toLowerCase e (trim text) = cmd_start \<and> step st \<noteq> IDLE
     \<and> err = invalid_transition (step st) WAITING_TITLE"
proof (cases "isGlobalCommand e (trim text)")
  case True
  then show ?thesis by (simp add: processTextMessage_def handleGlobalCommand_throws)
next
  case False
  then have "toLowerCase e (trim text) \<noteq> cmd_start" using start_is_command by blast
  moreover from False have "processTextMessage e text st \<noteq> Inl err"
    by (cases "step st")
       (simp_all add: processTextMessage_def handleTitleInput_eq handleContentInput_eq
          handleTagSelection_returns handleConfirmation_returns Let_def)
  ultimately show ?thesis by simp
qed

text \<open>
  C2. The claim is that the dispatcher never raises the invalid-transition error and
  acts on the start command from IDLE only. The code does not test the step before it
  requests the transition to WAITING_TITLE, and the dispatcher throws in exactly one
  situation: a text message whose trimmed, lowered text is the start command, received
  in any step but IDLE. The error is the invalid-transition error of \<open>transitionTo\<close>.
  Every other message, text or image, in every step, is answered with a result.
\<close>

theorem start_command_throws_outside_idle:
  "processMessage e msg st = Inl err \<longleftrightarrow>
     msg_type msg = TextMessage
     \<and> (\<exists>t. msg_text msg = Some t \<and> toLowerCase e (trim t) = cmd_start)
     \<and> step st \<noteq> IDLE
     \<and> err = invalid_transition (step st) WAITING_TITLE"
  by (auto simp: processMessage_def processTextMessage_throws processImageMessage_returns)

theorem start_command_throws_outside_idle_witness:
  "processMessage sample_env (text_message cmd_start) (sample_state WAITING_CONTENT)
     = Inl (plain_error (ascii ''Invalid transition from waiting_content to waiting_title''))"
  using start_command_throws_outside_idle[of sample_env "text_message cmd_start"
      "sample_state WAITING_CONTENT" "invalid_transition WAITING_CONTENT WAITING_TITLE"]
  by (simp add: trim_cmd_start sample_lower_start text_message_def
        sample_state_def invalid_transition_def ascii_def)

end
